theory Spec2Isabelle
  imports Main
begin

section \<open>Data model\<close>

text \<open>
  The manifest of \<^verbatim>\<open>src/index.ts\<close>: an ordered sequence of entries, each with a path, a
  description and one of three statuses.
\<close>

datatype status = Pending | Generated | Deleted

record ManifestFile =
  path :: string
  description :: string
  status :: status

record Manifest =
  files :: "ManifestFile list"

text \<open>
  A JSON value, as \<^verbatim>\<open>JSON.parse\<close> can return one. The source declares the \<^verbatim>\<open>content\<close> of an
  update as a string but tests its type at run time, so the model keeps it a JSON value.
\<close>

datatype jvalue =
    JString string
  | JNumber int
  | JBool bool
  | JNull
  | JUndefined
  | JArray "jvalue list"
  | JObject "(string \<times> jvalue) list"

text \<open>
  A command object. Both programs find out what a command is by probing for keys
  (\<^verbatim>\<open>'add' in command\<close>), so a command is modelled by the keys it has: a field is \<open>None\<close> when
  the key is absent. The payload of a key has the type the source declares for it
  (update: path, content, why), except for \<^verbatim>\<open>content\<close>. A command array is an array of
  such objects.
\<close>

record Command =
  add :: "(string \<times> string) option"
  update :: "(string \<times> jvalue \<times> string) option"
  remove :: "string option"
  finish :: "string option"
  continue :: "string list option"

text \<open>The four command shapes of the protocol, and the one the batch client adds.\<close>

definition no_keys :: Command where
  "no_keys = \<lparr>add = None, update = None, remove = None, finish = None, continue = None\<rparr>"

definition AddCommand :: "string \<Rightarrow> string \<Rightarrow> Command" where
  "AddCommand p d = no_keys\<lparr>add := Some (p, d)\<rparr>"

definition UpdateCommand :: "string \<Rightarrow> jvalue \<Rightarrow> string \<Rightarrow> Command" where
  "UpdateCommand p c w = no_keys\<lparr>update := Some (p, c, w)\<rparr>"

definition RemoveCommand :: "string \<Rightarrow> Command" where
  "RemoveCommand p = no_keys\<lparr>remove := Some p\<rparr>"

definition FinishCommand :: "string \<Rightarrow> Command" where
  "FinishCommand r = no_keys\<lparr>finish := Some r\<rparr>"

definition ContinueCommand :: "string list \<Rightarrow> Command" where
  "ContinueCommand ps = no_keys\<lparr>continue := Some ps\<rparr>"

section \<open>Errors\<close>

text \<open>
  An exception as this code can see it: its \<^verbatim>\<open>code\<close> property (the batch client tests it)
  and the text that \<^verbatim>\<open>`${error}`\<close> renders. Both come from whatever throws the exception.
\<close>

datatype error = Error (error_code: string) (error_text: string)

text \<open>The one exception this repository makes itself: \<^verbatim>\<open>new Error('Commands must be an array')\<close>.\<close>

definition not_an_array :: error where
  "not_an_array = Error [] ''Error: Commands must be an array''"

section \<open>The platform\<close>

text \<open>
  What is handed to \<^verbatim>\<open>fs.writeFile\<close>: the content of an update command, whatever JSON value
  it is, or the document \<^verbatim>\<open>JSON.stringify(this.manifest, null, 2)\<close>, kept symbolic. What
  \<^verbatim>\<open>fs.readFile\<close> gives back: a text, or the document of a manifest.
\<close>

datatype data = Data jvalue | Document Manifest

datatype filedata = Text string | Json_of Manifest

text \<open>
  The filesystem is not code of this repository. It is a parameter of the model: a type
  \<open>'fs\<close> of disks and the operations of \<^verbatim>\<open>fs/promises\<close> that the source calls, each giving
  the error it throws, if any, and the disk it leaves (a failed operation may have changed
  the disk). \<open>exists\<close> is not called by the source; it says whether a path names anything on
  a disk, for the claims that speak of it.
\<close>

record 'fs os =
  mkdir_p :: "string \<Rightarrow> 'fs \<Rightarrow> error option \<times> 'fs"
  writeFile :: "string \<Rightarrow> data \<Rightarrow> 'fs \<Rightarrow> error option \<times> 'fs"
  unlink :: "string \<Rightarrow> 'fs \<Rightarrow> error option \<times> 'fs"
  readFile :: "string \<Rightarrow> 'fs \<Rightarrow> error + filedata"
  exists :: "string \<Rightarrow> 'fs \<Rightarrow> bool"

text \<open>
  \<^verbatim>\<open>path.dirname\<close> of Node for POSIX paths: trailing slashes are skipped, then the last
  component; a path with no directory part gives \<^verbatim>\<open>.\<close> (or \<^verbatim>\<open>/\<close> when rooted).
\<close>

definition dirname :: "string \<Rightarrow> string" where
  "dirname p =
     (if p = [] then ''.''
      else let r = dropWhile (\<lambda>c. c \<noteq> CHR ''/'')
                     (dropWhile (\<lambda>c. c = CHR ''/'') (rev (tl p)))
           in if r = [] then (if hd p = CHR ''/'' then ''/'' else ''.'')
              else if hd p = CHR ''/'' \<and> length r = 1 then ''//''
              else take (length r) p)"

fun is_string :: "jvalue \<Rightarrow> bool" where
  "is_string (JString s) = True"
| "is_string _ = False"

section \<open>The world\<close>

text \<open>
  What a run can be seen to do: the texts it writes to standard output, its console
  diagnostics and the requests it sends to the content generator, in \<open>out\<close>; and the calls
  by which it changes the disk, in \<open>calls\<close>.
\<close>

datatype message =
    UserText string
  | UserBase64 filedata
  | UserUndefined
  | CurrentManifest Manifest
  | Fix string
  | Instructions

datatype event =
    Stdout string
  | UnexpectedContent string jvalue string
  | ConsoleLog error
  | Failure "string list" error
  | MessagesCreate "message list"

datatype call = Mkdir string | WriteFile string data | Unlink string

record 'fs world =
  disk :: 'fs
  out :: "event list"
  calls :: "call list"

definition emit :: "event \<Rightarrow> ('fs, 'a) world_scheme \<Rightarrow> ('fs, 'a) world_scheme" where
  "emit e w = w\<lparr>out := out w @ [e]\<rparr>"

text \<open>
  \<^verbatim>\<open>fs.mkdir(dir, { recursive: true })\<close>, \<^verbatim>\<open>fs.writeFile(path, data)\<close> and \<^verbatim>\<open>fs.unlink(path)\<close>
  as the source calls them: the call is recorded, the disk is the one the platform leaves,
  and the result is the error thrown, if any.
\<close>

definition fs_mkdir ::
  "'fs os \<Rightarrow> string \<Rightarrow> ('fs, 'a) world_scheme \<Rightarrow> error option \<times> ('fs, 'a) world_scheme" where
  "fs_mkdir os d w =
     (fst (mkdir_p os d (disk w)),
      w\<lparr>disk := snd (mkdir_p os d (disk w)), calls := calls w @ [Mkdir d]\<rparr>)"

definition fs_writeFile ::
  "'fs os \<Rightarrow> string \<Rightarrow> data \<Rightarrow> ('fs, 'a) world_scheme \<Rightarrow> error option \<times> ('fs, 'a) world_scheme" where
  "fs_writeFile os p x w =
     (fst (writeFile os p x (disk w)),
      w\<lparr>disk := snd (writeFile os p x (disk w)), calls := calls w @ [WriteFile p x]\<rparr>)"

definition fs_unlink ::
  "'fs os \<Rightarrow> string \<Rightarrow> ('fs, 'a) world_scheme \<Rightarrow> error option \<times> ('fs, 'a) world_scheme" where
  "fs_unlink os p w =
     (fst (unlink os p (disk w)),
      w\<lparr>disk := snd (unlink os p (disk w)), calls := calls w @ [Unlink p]\<rparr>)"

text \<open>An awaited call that may throw, seen from the loop of \<^verbatim>\<open>processCommands\<close>.\<close>

fun thrown :: "error option \<Rightarrow> error + bool" where
  "thrown None = Inr False"
| "thrown (Some e) = Inl e"

text \<open>A clause of the specification document: text, a file to import, or neither.\<close>

datatype clause = Clause string | Import string | OtherClause

record 'fs SourceGenerator = "'fs world" +
  manifest :: Manifest
  specContent :: "clause list"

definition manifestPath :: string where
  "manifestPath = ''./autosrc.json''"

section \<open>The Command Interpreter\<close>

text \<open>
  \<^verbatim>\<open>saveManifest\<close>: the whole manifest is written to the manifest path, through the same
  \<^verbatim>\<open>fs.writeFile\<close> as the files of the commands. A failed write is an exception; the
  manifest in memory keeps what was done to it before.
\<close>

definition saveManifest ::
  "'fs os \<Rightarrow> 'fs SourceGenerator \<Rightarrow> error option \<times> 'fs SourceGenerator" where
  "saveManifest os st = fs_writeFile os manifestPath (Document (manifest st)) st"

text \<open>
  \<^verbatim>\<open>this.manifest.files.find(f => f.path === filePath)\<close> followed by an assignment to the
  status of the entry found: the first entry with that path is changed in place.
\<close>

fun set_status :: "string \<Rightarrow> status \<Rightarrow> ManifestFile list \<Rightarrow> ManifestFile list" where
  "set_status p s [] = []"
| "set_status p s (f # fs) =
     (if path f = p then f\<lparr>status := s\<rparr> # fs else f # set_status p s fs)"

definition mark ::
  "'fs os \<Rightarrow> string \<Rightarrow> status \<Rightarrow> 'fs SourceGenerator \<Rightarrow> (error + bool) \<times> 'fs SourceGenerator" where
  "mark os p s st =
     (case find (\<lambda>f. path f = p) (files (manifest st)) of
        None \<Rightarrow> (Inr False, st)
      | Some f \<Rightarrow>
          (let r = saveManifest os
                     (st\<lparr>manifest := (manifest st)\<lparr>files := set_status p s (files (manifest st))\<rparr>\<rparr>)
           in (thrown (fst r), snd r)))"

text \<open>\<^verbatim>\<open>this.manifest.files.push(entry)\<close>: the entry goes to the end, whatever is there.\<close>

definition push :: "ManifestFile \<Rightarrow> 'fs SourceGenerator \<Rightarrow> 'fs SourceGenerator" where
  "push f st = st\<lparr>manifest := (manifest st)\<lparr>files := files (manifest st) @ [f]\<rparr>\<rparr>"

text \<open>
  The branches of the loop body of \<^verbatim>\<open>processCommands\<close>. The result is \<open>Inl e\<close> when the
  branch throws, \<open>Inr True\<close> when it returns true from the function, \<open>Inr False\<close> when the
  loop goes on.
\<close>

definition apply_add ::
  "'fs os \<Rightarrow> string \<Rightarrow> string \<Rightarrow> 'fs SourceGenerator \<Rightarrow> (error + bool) \<times> 'fs SourceGenerator" where
  "apply_add os p d st =
     (let r = saveManifest os
                (push \<lparr>path = p, description = d, status = Pending\<rparr>
                   (emit (Stdout (''ADD '' @ p @ [CHR 0x0A])) st))
      in (thrown (fst r), snd r))"

definition apply_update ::
  "'fs os \<Rightarrow> string \<Rightarrow> jvalue \<Rightarrow> string \<Rightarrow> 'fs SourceGenerator
     \<Rightarrow> (error + bool) \<times> 'fs SourceGenerator" where
  "apply_update os p c w st =
     (let st1 = emit (Stdout (''UPDATE '' @ p @ [CHR 0x0A])) st;
          st2 = (if \<not> is_string c then emit (UnexpectedContent p c w) st1 else st1);
          r1 = fs_mkdir os (dirname p) st2
      in case fst r1 of
           Some e \<Rightarrow> (Inl e, snd r1)
         | None \<Rightarrow>
             (let r2 = fs_writeFile os p (Data c) (snd r1)
              in case fst r2 of
                   Some e \<Rightarrow> (Inl e, snd r2)
                 | None \<Rightarrow> mark os p Generated (snd r2)))"

definition apply_remove ::
  "'fs os \<Rightarrow> string \<Rightarrow> 'fs SourceGenerator \<Rightarrow> (error + bool) \<times> 'fs SourceGenerator" where
  "apply_remove os p st =
     (let r = fs_unlink os p (emit (Stdout (''REMOVE '' @ p @ [CHR 0x0A])) st)
      in case fst r of
           Some e \<Rightarrow> (Inl e, snd r)
         | None \<Rightarrow> mark os p Deleted (snd r))"

definition apply_finish ::
  "string \<Rightarrow> 'fs SourceGenerator \<Rightarrow> (error + bool) \<times> 'fs SourceGenerator" where
  "apply_finish r st =
     (Inr True, emit (Stdout r) (emit (Stdout ([CHR 0x0A] @ ''Generation complete!'' @ [CHR 0x0A])) st))"

text \<open>The loop body: the keys are probed in the order add, update, remove, finish.\<close>

definition processCommand ::
  "'fs os \<Rightarrow> Command \<Rightarrow> 'fs SourceGenerator \<Rightarrow> (error + bool) \<times> 'fs SourceGenerator" where
  "processCommand os c st =
     (case add c of
        Some (p, d) \<Rightarrow> apply_add os p d st
      | None \<Rightarrow>
     (case update c of
        Some (p, v, w) \<Rightarrow> apply_update os p v w st
      | None \<Rightarrow>
     (case remove c of
        Some p \<Rightarrow> apply_remove os p st
      | None \<Rightarrow>
     (case finish c of
        Some r \<Rightarrow> apply_finish r st
      | None \<Rightarrow> (Inr False, st)))))"

fun commands_loop ::
  "'fs os \<Rightarrow> Command list \<Rightarrow> 'fs SourceGenerator \<Rightarrow> (error + bool) \<times> 'fs SourceGenerator" where
  "commands_loop os [] st = (Inr False, st)"
| "commands_loop os (c # cs) st =
     (case processCommand os c st of
        (Inl e, st') \<Rightarrow> (Inl e, st')
      | (Inr True, st') \<Rightarrow> (Inr True, st')
      | (Inr False, st') \<Rightarrow> commands_loop os cs st')"

text \<open>Decimal digits of a number, for the texts that print a count.\<close>

fun show_nat :: "nat \<Rightarrow> string" where
  "show_nat n =
     (if n < 10 then [''0123456789'' ! n]
      else show_nat (n div 10) @ [''0123456789'' ! (n mod 10)])"

definition processCommands ::
  "'fs os \<Rightarrow> Command list \<Rightarrow> 'fs SourceGenerator \<Rightarrow> (error + bool) \<times> 'fs SourceGenerator" where
  "processCommands os cs st =
     commands_loop os cs
       (emit (Stdout (''Received '' @ show_nat (length cs) @ '' commands from Claude'' @ [CHR 0x0A])) st)"

section \<open>The Generation Driver\<close>

text \<open>
  \<^verbatim>\<open>preload\<close>: one message per clause of the specification; an import clause reads its file
  from the disk as it is at that moment, and a failed read rejects the whole preload.
\<close>

fun preload :: "'fs os \<Rightarrow> clause list \<Rightarrow> 'fs \<Rightarrow> error + message list" where
  "preload os [] fs = Inr []"
| "preload os (Clause s # cs) fs =
     (case preload os cs fs of Inl e \<Rightarrow> Inl e | Inr ms \<Rightarrow> Inr (UserText s # ms))"
| "preload os (Import p # cs) fs =
     (case readFile os p fs of
        Inl e \<Rightarrow> Inl e
      | Inr d \<Rightarrow> (case preload os cs fs of Inl e \<Rightarrow> Inl e | Inr ms \<Rightarrow> Inr (UserBase64 d # ms)))"
| "preload os (OtherClause # cs) fs =
     (case preload os cs fs of Inl e \<Rightarrow> Inl e | Inr ms \<Rightarrow> Inr (UserUndefined # ms))"

text \<open>\<^verbatim>\<open>`${error}`.split('\n')\<close>: the lines of a text; the empty text has one empty line.\<close>

fun split_lines :: "string \<Rightarrow> string list" where
  "split_lines [] = [[]]"
| "split_lines (c # cs) =
     (if c = CHR 0x0A then [] # split_lines cs
      else (case split_lines cs of [] \<Rightarrow> [[c]] | l # ls \<Rightarrow> (c # l) # ls))"

text \<open>
  What one call of the Content Generator gives: \<open>Throws e\<close> when the call rejects or its
  text does not parse as JSON (both throw inside the same \<^verbatim>\<open>try\<close>), \<open>Commands cs\<close> when
  the text parses to the command array \<open>cs\<close>. A run is driven by the list of the responses
  the generator gives, one per call.
\<close>

datatype response = Throws error | Commands "Command list"

text \<open>
  How the loop of \<^verbatim>\<open>generate\<close> ends: \<open>Finished\<close> when \<^verbatim>\<open>finished\<close> became true, \<open>FatalError\<close>
  at \<^verbatim>\<open>process.exit(1)\<close>, \<open>Crashed e\<close> when \<^verbatim>\<open>preload\<close>, which is outside the \<^verbatim>\<open>try\<close>, rejects,
  and \<open>Looping errors\<close> when the responses given are used up and the loop, with that value of
  its variable \<^verbatim>\<open>errors\<close>, is about to start another cycle.
\<close>

datatype outcome = Finished | FatalError | Crashed error | Looping "string list"

definition request :: "message list \<Rightarrow> Manifest \<Rightarrow> string list \<Rightarrow> message list" where
  "request pre m errors = pre @ [CurrentManifest m] @ map Fix errors @ [Instructions]"

text \<open>The \<^verbatim>\<open>catch\<close> block: \<open>None\<close> when the loop goes on, with the new value of \<^verbatim>\<open>errors\<close>.\<close>

definition catch_block ::
  "error \<Rightarrow> string list \<Rightarrow> 'fs SourceGenerator \<Rightarrow> string list option \<times> 'fs SourceGenerator" where
  "catch_block e errors st =
     (if length errors > 0 then (None, emit (Failure errors e) st)
      else (Some (split_lines (error_text e)), emit (ConsoleLog e) st))"

fun generate_loop ::
  "'fs os \<Rightarrow> response list \<Rightarrow> string list \<Rightarrow> 'fs SourceGenerator
     \<Rightarrow> outcome \<times> 'fs SourceGenerator" where
  "generate_loop os [] errors st = (Looping errors, st)"
| "generate_loop os (r # rs) errors st =
     (case preload os (specContent st) (disk st) of
        Inl e \<Rightarrow> (Crashed e, st)
      | Inr pre \<Rightarrow>
          (let st1 = emit (MessagesCreate (request pre (manifest st) errors)) st
           in case r of
                Throws e \<Rightarrow>
                  (case catch_block e errors st1 of
                     (None, st2) \<Rightarrow> (FatalError, st2)
                   | (Some errors', st2) \<Rightarrow> generate_loop os rs errors' st2)
              | Commands cs \<Rightarrow>
                  (case processCommands os cs st1 of
                     (Inl e, st2) \<Rightarrow>
                       (case catch_block e errors st2 of
                          (None, st3) \<Rightarrow> (FatalError, st3)
                        | (Some errors', st3) \<Rightarrow> generate_loop os rs errors' st3)
                   | (Inr True, st2) \<Rightarrow> (Finished, st2)
                   | (Inr False, st2) \<Rightarrow> generate_loop os rs errors st2)))"

definition generate ::
  "'fs os \<Rightarrow> response list \<Rightarrow> 'fs SourceGenerator \<Rightarrow> outcome \<times> 'fs SourceGenerator" where
  "generate os rs st = generate_loop os rs [] st"

text \<open>
  What a cycle throws inside the \<^verbatim>\<open>try\<close>, if it throws, and the state at that moment: the
  error of the call or of the parse, or the error of the command at which
  \<^verbatim>\<open>processCommands\<close> stopped.
\<close>

fun cycle_failure ::
  "'fs os \<Rightarrow> response \<Rightarrow> 'fs SourceGenerator \<Rightarrow> (error \<times> 'fs SourceGenerator) option" where
  "cycle_failure os (Throws e) st = Some (e, st)"
| "cycle_failure os (Commands cs) st =
     (case processCommands os cs st of
        (Inl e, st') \<Rightarrow> Some (e, st')
      | (Inr b, st') \<Rightarrow> None)"

section \<open>The batch-replay client\<close>

text \<open>\<^verbatim>\<open>ensureDirectoryExists\<close> of \<^verbatim>\<open>src/batchDownload.ts\<close>: an \<^verbatim>\<open>EEXIST\<close> error is swallowed.\<close>

definition ensureDirectoryExists ::
  "'fs os \<Rightarrow> string \<Rightarrow> 'fs world \<Rightarrow> error option \<times> 'fs world" where
  "ensureDirectoryExists os p w =
     (let r = fs_mkdir os (dirname p) w
      in case fst r of
           Some e \<Rightarrow> (if error_code e \<noteq> ''EEXIST'' then (Some e, snd r) else (None, snd r))
         | None \<Rightarrow> (None, snd r))"

definition replay_update :: "'fs os \<Rightarrow> string \<Rightarrow> jvalue \<Rightarrow> string \<Rightarrow> 'fs world \<Rightarrow> 'fs world" where
  "replay_update os p c why w =
     (let w1 = emit (Stdout ([CHR 0x0A] @ ''Processing file: '' @ p @ [CHR 0x0A])) w;
          w2 = emit (Stdout (''Reason: '' @ why @ [CHR 0x0A])) w1;
          r1 = ensureDirectoryExists os p w2
      in case fst r1 of
           Some e \<Rightarrow>
             emit (Stdout (''Error writing file '' @ p @ '': '' @ error_text e @ [CHR 0x0A])) (snd r1)
         | None \<Rightarrow>
             (let r2 = fs_writeFile os p (Data c) (snd r1)
              in case fst r2 of
                   Some e \<Rightarrow>
                     emit (Stdout (''Error writing file '' @ p @ '': '' @ error_text e @ [CHR 0x0A]))
                       (snd r2)
                 | None \<Rightarrow>
                     emit (Stdout (''Successfully wrote: '' @ p @ [CHR 0x0A])) (snd r2)))"

definition replay_continue :: "string list \<Rightarrow> 'fs world \<Rightarrow> 'fs world" where
  "replay_continue ps w =
     (if length ps > 0
      then foldl (\<lambda>w' f. emit (Stdout (''- '' @ f @ [CHR 0x0A])) w')
             (emit (Stdout ([CHR 0x0A] @ ''Pending files to be processed:'' @ [CHR 0x0A])) w) ps
      else w)"

definition replay_finish :: "string \<Rightarrow> 'fs world \<Rightarrow> 'fs world" where
  "replay_finish r w =
     emit (Stdout ([CHR 0x0A] @ ''Processing complete!'' @ [CHR 0x0A]))
       (emit (Stdout (r @ [CHR 0x0A]))
          (emit (Stdout ([CHR 0x0A] @ ''Final Report:'' @ [CHR 0x0A])) w))"

text \<open>The loop body of \<^verbatim>\<open>processCommandFile\<close>: the keys are probed in the order update, continue, finish.\<close>

definition replay_command :: "'fs os \<Rightarrow> Command \<Rightarrow> 'fs world \<Rightarrow> 'fs world" where
  "replay_command os c w =
     (case update c of
        Some (p, v, why) \<Rightarrow> replay_update os p v why w
      | None \<Rightarrow>
     (case continue c of
        Some ps \<Rightarrow> replay_continue ps w
      | None \<Rightarrow>
     (case finish c of
        Some r \<Rightarrow> replay_finish r w
      | None \<Rightarrow> w)))"

fun replay_loop :: "'fs os \<Rightarrow> Command list \<Rightarrow> 'fs world \<Rightarrow> 'fs world" where
  "replay_loop os [] w = w"
| "replay_loop os (c # cs) w = replay_loop os cs (replay_command os c w)"

text \<open>
  \<^verbatim>\<open>JSON.parse\<close> of the text of a command file is the parameter \<open>parse\<close>: the error it throws,
  or what it returns, which is \<open>None\<close> when the value is not an array and the commands of
  the array otherwise. The document of a manifest is an object, not an array.
\<close>

type_synonym parser = "string \<Rightarrow> error + Command list option"

definition parse_file :: "parser \<Rightarrow> filedata \<Rightarrow> error + Command list" where
  "parse_file parse d =
     (case d of
        Text s \<Rightarrow>
          (case parse s of
             Inl e \<Rightarrow> Inl e
           | Inr None \<Rightarrow> Inl not_an_array
           | Inr (Some cs) \<Rightarrow> Inr cs)
      | Json_of m \<Rightarrow> Inl not_an_array)"

definition processCommandFile :: "'fs os \<Rightarrow> parser \<Rightarrow> string \<Rightarrow> 'fs world \<Rightarrow> 'fs world" where
  "processCommandFile os parse filePath w =
     (let w1 = emit (Stdout (''Reading command file: '' @ filePath @ ''...'' @ [CHR 0x0A])) w
      in case readFile os filePath (disk w1) of
           Inl e \<Rightarrow>
             emit (Stdout (''Error processing file '' @ filePath @ '': '' @ error_text e @ [CHR 0x0A])) w1
         | Inr d \<Rightarrow>
             (case parse_file parse d of
                Inl e \<Rightarrow>
                  emit (Stdout (''Error parsing JSON from '' @ filePath @ '': '' @ error_text e @ [CHR 0x0A])) w1
              | Inr cs \<Rightarrow> replay_loop os cs w1))"

text \<open>How \<^verbatim>\<open>main\<close> ends: it returns, or the process exits with a code.\<close>

datatype ending = Returned | Exit nat

fun files_loop :: "'fs os \<Rightarrow> parser \<Rightarrow> string list \<Rightarrow> 'fs world \<Rightarrow> 'fs world" where
  "files_loop os parse [] w = w"
| "files_loop os parse (f # fs) w = files_loop os parse fs (processCommandFile os parse f w)"

definition main :: "'fs os \<Rightarrow> parser \<Rightarrow> string list \<Rightarrow> 'fs world \<Rightarrow> ending \<times> 'fs world" where
  "main os parse commandFiles w =
     (if length commandFiles = 0
      then (Exit 1, emit (Stdout (''Please provide at least one command file as an argument.'' @ [CHR 0x0A])) w)
      else (Returned,
            files_loop os parse commandFiles
              (emit (Stdout (''Processing '' @ show_nat (length commandFiles) @ '' command file(s)...''
                       @ [CHR 0x0A, CHR 0x0A])) w)))"

section \<open>Observations on a run\<close>

text \<open>The number of requests sent to the Content Generator, read off the events of a run.\<close>

fun is_invocation :: "event \<Rightarrow> bool" where
  "is_invocation (MessagesCreate ms) = True"
| "is_invocation _ = False"

definition invocations :: "event list \<Rightarrow> nat" where
  "invocations es = length (filter is_invocation es)"

text \<open>
  The number of cycles that have failed: the \<^verbatim>\<open>catch\<close> block, and nothing else, prints the
  error it caught, with \<^verbatim>\<open>console.log\<close> or with \<^verbatim>\<open>console.error('Failure:', ...)\<close>.
\<close>

fun is_caught :: "event \<Rightarrow> bool" where
  "is_caught (ConsoleLog e) = True"
| "is_caught (Failure es e) = True"
| "is_caught _ = False"

definition failed_cycles :: "event list \<Rightarrow> nat" where
  "failed_cycles es = length (filter is_caught es)"

text \<open>
  A later manifest keeps an earlier one: every entry is still at its place with its path and
  description, and no entry has gone back to \<open>Pending\<close>.
\<close>

definition keeps :: "ManifestFile list \<Rightarrow> ManifestFile list \<Rightarrow> bool" where
  "keeps old new \<longleftrightarrow>
     length old \<le> length new \<and>
     (\<forall>i<length old. path (new ! i) = path (old ! i) \<and> description (new ! i) = description (old ! i)
        \<and> (status (new ! i) = Pending \<longrightarrow> status (old ! i) = Pending))"

section \<open>An example platform\<close>

text \<open>
  The theorems hold for every platform. Where a concrete one is needed, this is it: the
  tree below the working directory, with the behaviour of Node on Linux for the paths it
  takes. A node of the tree is found by the components of its path, so that
  \<^verbatim>\<open>autosrc.json\<close>, \<^verbatim>\<open>./autosrc.json\<close> and \<^verbatim>\<open>.//autosrc.json\<close> name one file, and \<^verbatim>\<open>src\<close> and \<^verbatim>\<open>src/\<close> one
  directory. The example has no symbolic links and lets nothing out of the working
  directory: an absolute path and a path with a component \<^verbatim>\<open>..\<close> are refused, as a platform
  may for want of permission.
\<close>

datatype node = Dir | File filedata

type_synonym tree = "string list \<rightharpoonup> node"

definition node_at :: "tree \<Rightarrow> string list \<Rightarrow> node option" where
  "node_at t cs = (if cs = [] then Some Dir else t cs)"

fun split_on :: "char \<Rightarrow> string \<Rightarrow> string list" where
  "split_on s [] = [[]]"
| "split_on s (c # cs) =
     (if c = s then [] # split_on s cs
      else (case split_on s cs of [] \<Rightarrow> [[c]] | l # ls \<Rightarrow> (c # l) # ls))"

fun walk :: "string list \<Rightarrow> string list \<Rightarrow> string + string list" where
  "walk cur [] = Inr cur"
| "walk cur (s # ss) =
     (if s = [] \<or> s = ''.'' then walk cur ss
      else if s = ''..'' then Inl ''EACCES''
      else walk (cur @ [s]) ss)"

definition resolve :: "string \<Rightarrow> string + string list" where
  "resolve p =
     (if p = [] then Inl ''ENOENT''
      else if hd p = CHR ''/'' then Inl ''EACCES''
      else walk [] (split_on (CHR ''/'') p))"

text \<open>The error of the first component on the way to a node that is not a directory.\<close>

fun way_error :: "tree \<Rightarrow> string list \<Rightarrow> string list \<Rightarrow> string option" where
  "way_error t cur [] = None"
| "way_error t cur [x] = None"
| "way_error t cur (x # y # ys) =
     (case node_at t (cur @ [x]) of
        None \<Rightarrow> Some ''ENOENT''
      | Some (File d) \<Rightarrow> Some ''ENOTDIR''
      | Some Dir \<Rightarrow> way_error t (cur @ [x]) (y # ys))"

text \<open>The texts of system errors, as Node renders them.\<close>

definition describe :: "string \<Rightarrow> string" where
  "describe c =
     (if c = ''ENOENT'' then ''no such file or directory''
      else if c = ''EEXIST'' then ''file already exists''
      else if c = ''EISDIR'' then ''illegal operation on a directory''
      else if c = ''ENOTDIR'' then ''not a directory''
      else ''permission denied'')"

definition sys_error :: "string \<Rightarrow> string \<Rightarrow> string \<Rightarrow> error" where
  "sys_error c syscall p =
     Error c (''Error: '' @ c @ '': '' @ describe c @ '', '' @ syscall @ '' ''
                @ [CHR 0x27] @ p @ [CHR 0x27])"

text \<open>
  \<^verbatim>\<open>mkdir\<close> with \<^verbatim>\<open>recursive: true\<close>: every missing directory on the way is made; a regular
  file on the way, or at the end, is an error, and then nothing is made.
\<close>

fun make_dirs :: "tree \<Rightarrow> string list \<Rightarrow> string list \<Rightarrow> string + tree" where
  "make_dirs t cur [] = Inr t"
| "make_dirs t cur (x # xs) =
     (case node_at t (cur @ [x]) of
        Some (File d) \<Rightarrow> Inl (if xs = [] then ''EEXIST'' else ''ENOTDIR'')
      | Some Dir \<Rightarrow> make_dirs t (cur @ [x]) xs
      | None \<Rightarrow> make_dirs (t(cur @ [x] \<mapsto> Dir)) (cur @ [x]) xs)"

definition ex_mkdir_p :: "string \<Rightarrow> tree \<Rightarrow> error option \<times> tree" where
  "ex_mkdir_p d t =
     (case resolve d of
        Inl c \<Rightarrow> (Some (sys_error c ''mkdir'' d), t)
      | Inr cs \<Rightarrow>
          (case make_dirs t [] cs of
             Inl c \<Rightarrow> (Some (sys_error c ''mkdir'' d), t)
           | Inr t' \<Rightarrow> (None, t')))"

text \<open>
  Opening a file for writing: the error, or the place of the file. A path that names a
  directory cannot be opened for writing, nor can one that ends in a slash.
\<close>

definition open_w :: "string \<Rightarrow> tree \<Rightarrow> string + string list" where
  "open_w p t =
     (case resolve p of
        Inl c \<Rightarrow> Inl c
      | Inr cs \<Rightarrow>
          (case way_error t [] cs of
             Some c \<Rightarrow> Inl c
           | None \<Rightarrow>
               (case node_at t cs of
                  Some Dir \<Rightarrow> Inl ''EISDIR''
                | Some (File d) \<Rightarrow> (if last p = CHR ''/'' then Inl ''ENOTDIR'' else Inr cs)
                | None \<Rightarrow> (if last p = CHR ''/'' then Inl ''EISDIR'' else Inr cs))))"

text \<open>How Node names a value that it refuses as data.\<close>

definition show_int :: "int \<Rightarrow> string" where
  "show_int i = (if i < 0 then ''-'' @ show_nat (nat (- i)) else show_nat (nat i))"

fun received :: "jvalue \<Rightarrow> string" where
  "received (JNumber n) = '' Received type number ('' @ show_int n @ '')''"
| "received (JBool b) = '' Received type boolean ('' @ (if b then ''true'' else ''false'') @ '')''"
| "received JNull = '' Received null''"
| "received JUndefined = '' Received undefined''"
| "received (JObject kvs) = '' Received an instance of Object''"
| "received (JArray vs) = '' Received an instance of Array''"
| "received (JString s) = '' Received type string''"

definition bad_data :: "jvalue \<Rightarrow> error" where
  "bad_data v =
     Error ''ERR_INVALID_ARG_TYPE''
       (''TypeError [ERR_INVALID_ARG_TYPE]: The '' @ [CHR 0x22] @ ''data'' @ [CHR 0x22]
          @ '' argument must be of type string or an instance of Buffer, TypedArray, or DataView.''
          @ received v)"

definition bad_chunk :: "jvalue \<Rightarrow> error" where
  "bad_chunk v =
     Error ''ERR_INVALID_ARG_TYPE''
       (''TypeError [ERR_INVALID_ARG_TYPE]: The first argument must be of type string or an instance of Buffer, ArrayBuffer, or Array or an Array-like Object.''
          @ received v)"

text \<open>
  An array is iterable, and \<^verbatim>\<open>writeFile\<close> writes the elements of an iterable one after the
  other: the text of the strings up to the first element that is not a string, and that
  element, at which the write throws. Node refuses an element that is a number, a boolean
  or null; it takes some arrays and objects as bytes, which the example refuses as well.
\<close>

fun chunks :: "jvalue list \<Rightarrow> string \<times> jvalue option" where
  "chunks [] = ([], None)"
| "chunks (JString s # vs) = (s @ fst (chunks vs), snd (chunks vs))"
| "chunks (v # vs) = ([], Some v)"

text \<open>
  \<^verbatim>\<open>writeFile\<close>: a string is written whole. A value that is neither a string nor iterable is
  refused before the file is opened. For an array the file is opened, which empties it,
  and the elements are written until one is refused: the file is left with what was
  written before.
\<close>

definition ex_writeFile :: "string \<Rightarrow> data \<Rightarrow> tree \<Rightarrow> error option \<times> tree" where
  "ex_writeFile p x t =
     (case x of
        Document m \<Rightarrow>
          (case open_w p t of
             Inl c \<Rightarrow> (Some (sys_error c ''open'' p), t)
           | Inr cs \<Rightarrow> (None, t(cs \<mapsto> File (Json_of m))))
      | Data (JString s) \<Rightarrow>
          (case open_w p t of
             Inl c \<Rightarrow> (Some (sys_error c ''open'' p), t)
           | Inr cs \<Rightarrow> (None, t(cs \<mapsto> File (Text s))))
      | Data (JArray vs) \<Rightarrow>
          (case open_w p t of
             Inl c \<Rightarrow> (Some (sys_error c ''open'' p), t)
           | Inr cs \<Rightarrow>
               (map_option bad_chunk (snd (chunks vs)), t(cs \<mapsto> File (Text (fst (chunks vs))))))
      | Data v \<Rightarrow> (Some (bad_data v), t))"

text \<open>\<^verbatim>\<open>unlink\<close> removes a regular file, and nothing else.\<close>

definition ex_unlink :: "string \<Rightarrow> tree \<Rightarrow> error option \<times> tree" where
  "ex_unlink p t =
     (case resolve p of
        Inl c \<Rightarrow> (Some (sys_error c ''unlink'' p), t)
      | Inr cs \<Rightarrow>
          (case way_error t [] cs of
             Some c \<Rightarrow> (Some (sys_error c ''unlink'' p), t)
           | None \<Rightarrow>
               (case node_at t cs of
                  None \<Rightarrow> (Some (sys_error ''ENOENT'' ''unlink'' p), t)
                | Some Dir \<Rightarrow> (Some (sys_error ''EISDIR'' ''unlink'' p), t)
                | Some (File d) \<Rightarrow>
                    (if last p = CHR ''/'' then (Some (sys_error ''ENOTDIR'' ''unlink'' p), t)
                     else (None, t(cs := None))))))"

text \<open>\<^verbatim>\<open>readFile\<close>: a directory can be opened for reading, and then not read.\<close>

definition ex_readFile :: "string \<Rightarrow> tree \<Rightarrow> error + filedata" where
  "ex_readFile p t =
     (case resolve p of
        Inl c \<Rightarrow> Inl (sys_error c ''open'' p)
      | Inr cs \<Rightarrow>
          (case way_error t [] cs of
             Some c \<Rightarrow> Inl (sys_error c ''open'' p)
           | None \<Rightarrow>
               (case node_at t cs of
                  None \<Rightarrow> Inl (sys_error ''ENOENT'' ''open'' p)
                | Some Dir \<Rightarrow>
                    Inl (Error ''EISDIR'' ''Error: EISDIR: illegal operation on a directory, read'')
                | Some (File d) \<Rightarrow>
                    (if last p = CHR ''/'' then Inl (sys_error ''ENOTDIR'' ''open'' p)
                     else Inr d))))"

text \<open>Whether a path names a file or a directory, as \<^verbatim>\<open>stat\<close> would tell.\<close>

definition ex_exists :: "string \<Rightarrow> tree \<Rightarrow> bool" where
  "ex_exists p t =
     (case resolve p of
        Inl c \<Rightarrow> False
      | Inr cs \<Rightarrow>
          way_error t [] cs = None \<and>
          (case node_at t cs of
             None \<Rightarrow> False
           | Some Dir \<Rightarrow> True
           | Some (File d) \<Rightarrow> last p \<noteq> CHR ''/''))"

definition node_os :: "tree os" where
  "node_os = \<lparr>mkdir_p = ex_mkdir_p, writeFile = ex_writeFile, unlink = ex_unlink,
              readFile = ex_readFile, exists = ex_exists\<rparr>"

section \<open>Example inputs\<close>

text \<open>
  A parser that knows one well-formed command file, and a disk holding it beside a
  malformed one. The first update of the file names a directory, so its write fails.
\<close>

definition parse0 :: parser where
  "parse0 s =
     (if s = ''good''
      then Inr (Some [UpdateCommand ''.'' (JString ''oops'') ''a directory'',
                      FinishCommand ''done'',
                      UpdateCommand ''out/x.txt'' (JString ''hello'') ''test''])
      else Inl (Error [] ''SyntaxError: Unexpected end of JSON input''))"

definition world0 :: "tree world" where
  "world0 = \<lparr>disk = [[''bad.json''] \<mapsto> File (Text ''{''), [''good.json''] \<mapsto> File (Text ''good'')],
             out = [], calls = []\<rparr>"

text \<open>A generator that has just started: an empty manifest, saved.\<close>

definition gen0 :: "tree SourceGenerator" where
  "gen0 = \<lparr>disk = [[''autosrc.json''] \<mapsto> File (Json_of \<lparr>files = []\<rparr>)],
            out = [], calls = [],
            manifest = \<lparr>files = []\<rparr>,
            specContent = []\<rparr>"

text \<open>A generator with one generated file.\<close>

definition gen1 :: "tree SourceGenerator" where
  "gen1 = \<lparr>disk = [[''autosrc.json''] \<mapsto>
                      File (Json_of \<lparr>files = [\<lparr>path = ''src/a.ts'', description = ''d'',
                                               status = Generated\<rparr>]\<rparr>),
                    [''src''] \<mapsto> Dir,
                    [''src'', ''a.ts''] \<mapsto> File (Text ''export const a = 1;'')],
            out = [], calls = [],
            manifest = \<lparr>files = [\<lparr>path = ''src/a.ts'', description = ''d'', status = Generated\<rparr>]\<rparr>,
            specContent = []\<rparr>"


section \<open>Auxiliary lemmas\<close>

lemmas ex_defs = node_os_def ex_mkdir_p_def ex_writeFile_def ex_unlink_def ex_readFile_def
  ex_exists_def resolve_def open_w_def node_at_def sys_error_def describe_def bad_data_def
  bad_chunk_def show_int_def dirname_def

lemmas command_defs = no_keys_def AddCommand_def UpdateCommand_def RemoveCommand_def
  FinishCommand_def ContinueCommand_def

lemmas call_defs = fs_mkdir_def fs_writeFile_def fs_unlink_def

lemmas replay_defs = ensureDirectoryExists_def replay_update_def replay_continue_def
  replay_finish_def replay_command_def parse_file_def processCommandFile_def main_def
  not_an_array_def

lemmas interp_defs = processCommands_def processCommand_def push_def apply_add_def apply_update_def
  apply_remove_def apply_finish_def mark_def saveManifest_def manifestPath_def emit_def
  generate_def catch_block_def request_def Let_def

subsection \<open>Events and calls\<close>

lemma emit_simps [simp]:
  "disk (emit e w) = disk w"
  "out (emit e w) = out w @ [e]"
  "calls (emit e w) = calls w"
  by (simp_all add: emit_def)

lemma emit_gen_simps [simp]:
  "manifest (emit e st) = manifest st"
  "specContent (emit e st) = specContent st"
  by (simp_all add: emit_def)

lemma fs_mkdir_simps [simp]:
  "fst (fs_mkdir os d w) = fst (mkdir_p os d (disk w))"
  "disk (snd (fs_mkdir os d w)) = snd (mkdir_p os d (disk w))"
  "out (snd (fs_mkdir os d w)) = out w"
  "calls (snd (fs_mkdir os d w)) = calls w @ [Mkdir d]"
  by (simp_all add: fs_mkdir_def)

lemma fs_writeFile_simps [simp]:
  "fst (fs_writeFile os p x w) = fst (writeFile os p x (disk w))"
  "disk (snd (fs_writeFile os p x w)) = snd (writeFile os p x (disk w))"
  "out (snd (fs_writeFile os p x w)) = out w"
  "calls (snd (fs_writeFile os p x w)) = calls w @ [WriteFile p x]"
  by (simp_all add: fs_writeFile_def)

lemma fs_unlink_simps [simp]:
  "fst (fs_unlink os p w) = fst (unlink os p (disk w))"
  "disk (snd (fs_unlink os p w)) = snd (unlink os p (disk w))"
  "out (snd (fs_unlink os p w)) = out w"
  "calls (snd (fs_unlink os p w)) = calls w @ [Unlink p]"
  by (simp_all add: fs_unlink_def)

lemma fs_gen_simps [simp]:
  "manifest (snd (fs_mkdir os d st)) = manifest st"
  "specContent (snd (fs_mkdir os d st)) = specContent st"
  "manifest (snd (fs_writeFile os p x st)) = manifest st"
  "specContent (snd (fs_writeFile os p x st)) = specContent st"
  "manifest (snd (fs_unlink os p st)) = manifest st"
  "specContent (snd (fs_unlink os p st)) = specContent st"
  by (simp_all add: call_defs)

lemma invocations_append [simp]: "invocations (xs @ ys) = invocations xs + invocations ys"
  by (simp add: invocations_def)

lemma invocations_Cons [simp]:
  "invocations (e # es) = (if is_invocation e then 1 else 0) + invocations es"
  by (simp add: invocations_def)

lemma invocations_Nil [simp]: "invocations [] = 0"
  by (simp add: invocations_def)

lemma failed_cycles_append [simp]: "failed_cycles (xs @ ys) = failed_cycles xs + failed_cycles ys"
  by (simp add: failed_cycles_def)

lemma failed_cycles_Cons [simp]:
  "failed_cycles (e # es) = (if is_caught e then 1 else 0) + failed_cycles es"
  by (simp add: failed_cycles_def)

lemma failed_cycles_Nil [simp]: "failed_cycles [] = 0"
  by (simp add: failed_cycles_def)

subsection \<open>The batch-replay client\<close>

lemma replay_loop_append:
  "replay_loop os (xs @ ys) w = replay_loop os ys (replay_loop os xs w)"
  by (induction xs arbitrary: w) simp_all

lemma ensureDirectoryExists_out [simp]: "out (snd (ensureDirectoryExists os p w)) = out w"
  by (simp add: ensureDirectoryExists_def Let_def split: option.splits)

lemma out_replay_update:
  "\<exists>es. out (replay_update os p v why w) =
     out w @ Stdout ([CHR 0x0A] @ ''Processing file: '' @ p @ [CHR 0x0A]) # es"
  by (simp add: replay_update_def Let_def split: option.splits)

lemma out_replay_update_ext: "\<exists>es. out (replay_update os p v why w) = out w @ es"
  by (simp add: replay_update_def Let_def split: option.splits)

lemma out_replay_continue: "\<exists>es. out (replay_continue ps w) = out w @ es"
proof -
  have "\<And>w. \<exists>es. out (foldl (\<lambda>w' f. emit (Stdout (''- '' @ f @ [CHR 0x0A])) w') w ps) = out w @ es"
  proof (induction ps)
    case Nil show ?case by simp
  next
    case (Cons a ps)
    from Cons[of "emit (Stdout (''- '' @ a @ [CHR 0x0A])) w"] show ?case by auto
  qed
  from this[of "emit (Stdout ([CHR 0x0A] @ ''Pending files to be processed:'' @ [CHR 0x0A])) w"]
  show ?thesis by (auto simp: replay_continue_def)
qed

lemma out_replay_command: "\<exists>es. out (replay_command os c w) = out w @ es"
proof (cases "update c")
  case (Some u)
  then show ?thesis using out_replay_update_ext[of os _ _ _ w]
    by (cases u) (simp add: replay_command_def)
next
  case None
  then show ?thesis using out_replay_continue[of _ w]
    by (cases "continue c"; cases "finish c") (simp_all add: replay_command_def replay_finish_def)
qed

lemma out_replay_loop: "\<exists>es. out (replay_loop os cs w) = out w @ es"
proof (induction cs arbitrary: w)
  case Nil show ?case by simp
next
  case (Cons c cs)
  obtain es1 where a: "out (replay_command os c w) = out w @ es1"
    using out_replay_command by blast
  obtain es2 where b: "out (replay_loop os cs (replay_command os c w)) = out (replay_command os c w) @ es2"
    using Cons by blast
  show ?case using a b by simp
qed

lemma out_processCommandFile:
  "\<exists>es. out (processCommandFile os parse f w) =
     out w @ Stdout (''Reading command file: '' @ f @ ''...'' @ [CHR 0x0A]) # es"
proof -
  let ?w1 = "emit (Stdout (''Reading command file: '' @ f @ ''...'' @ [CHR 0x0A])) w"
  show ?thesis using out_replay_loop[of os _ ?w1]
    by (auto simp: processCommandFile_def Let_def split: sum.splits)
qed

lemma out_files_loop: "\<exists>es. out (files_loop os parse fs w) = out w @ es"
proof (induction fs arbitrary: w)
  case Nil show ?case by simp
next
  case (Cons f fs)
  obtain es1 where a: "out (processCommandFile os parse f w) = out w @ es1"
    using out_processCommandFile by blast
  obtain es2 where b: "out (files_loop os parse fs (processCommandFile os parse f w))
      = out (processCommandFile os parse f w) @ es2"
    using Cons by blast
  show ?case using a b by simp
qed

lemma files_loop_visits:
  "f \<in> set fs \<Longrightarrow>
   Stdout (''Reading command file: '' @ f @ ''...'' @ [CHR 0x0A]) \<in> set (out (files_loop os parse fs w))"
proof (induction fs arbitrary: w)
  case Nil then show ?case by simp
next
  case (Cons g fs)
  show ?case
  proof (cases "f = g")
    case True
    obtain es1 where a: "out (processCommandFile os parse g w)
        = out w @ Stdout (''Reading command file: '' @ g @ ''...'' @ [CHR 0x0A]) # es1"
      using out_processCommandFile by blast
    obtain es2 where b: "out (files_loop os parse fs (processCommandFile os parse g w))
        = out (processCommandFile os parse g w) @ es2"
      using out_files_loop by blast
    show ?thesis using a b True by simp
  next
    case False
    then have "f \<in> set fs" using Cons.prems by simp
    then show ?thesis using Cons.IH by simp
  qed
qed

lemma replay_loop_attempts:
  "c \<in> set cs \<Longrightarrow> update c = Some (p, v, why) \<Longrightarrow>
   Stdout ([CHR 0x0A] @ ''Processing file: '' @ p @ [CHR 0x0A]) \<in> set (out (replay_loop os cs w))"
proof (induction cs arbitrary: w)
  case Nil then show ?case by simp
next
  case (Cons g cs)
  show ?case
  proof (cases "c = g")
    case True
    then have "replay_command os g w = replay_update os p v why w"
      using Cons.prems by (simp add: replay_command_def)
    then obtain es1 where a: "out (replay_command os g w)
        = out w @ Stdout ([CHR 0x0A] @ ''Processing file: '' @ p @ [CHR 0x0A]) # es1"
      using out_replay_update[of os p v why w] by auto
    obtain es2 where b: "out (replay_loop os cs (replay_command os g w))
        = out (replay_command os g w) @ es2"
      using out_replay_loop by blast
    show ?thesis using a b by simp
  next
    case False
    then have "c \<in> set cs" using Cons.prems by simp
    then show ?thesis using Cons.IH Cons.prems by simp
  qed
qed

subsection \<open>The manifest\<close>

lemma set_status_length [simp]: "length (set_status p s xs) = length xs"
  by (induction xs) simp_all

lemma set_status_no_match:
  "find (\<lambda>f. path f = p) xs = None \<Longrightarrow> set_status p s xs = xs"
  by (induction xs) (simp_all split: if_splits)

lemma set_status_nth:
  "i < length xs \<Longrightarrow>
   set_status p s xs ! i =
     (if path (xs ! i) = p \<and> (\<forall>j<i. path (xs ! j) \<noteq> p) then (xs ! i)\<lparr>status := s\<rparr> else xs ! i)"
proof (induction xs arbitrary: i)
  case Nil then show ?case by simp
next
  case (Cons f fs)
  show ?case
  proof (cases i)
    case 0 then show ?thesis by simp
  next
    case (Suc k)
    then have k: "k < length fs" using Cons.prems by simp
    show ?thesis
    proof (cases "path f = p")
      case True
      then show ?thesis using Suc by auto
    next
      case False
      have "(\<forall>j<Suc k. path ((f # fs) ! j) \<noteq> p) = (\<forall>j<k. path (fs ! j) \<noteq> p)"
        using False by (auto simp: less_Suc_eq_0_disj)
      then show ?thesis using False Suc Cons.IH[OF k] by auto
    qed
  qed
qed

lemma saveManifest_simps [simp]:
  "fst (saveManifest os st) = fst (writeFile os manifestPath (Document (manifest st)) (disk st))"
  "disk (snd (saveManifest os st)) = snd (writeFile os manifestPath (Document (manifest st)) (disk st))"
  "manifest (snd (saveManifest os st)) = manifest st"
  "out (snd (saveManifest os st)) = out st"
  "specContent (snd (saveManifest os st)) = specContent st"
  "calls (snd (saveManifest os st)) = calls st @ [WriteFile manifestPath (Document (manifest st))]"
  by (simp_all add: saveManifest_def)

lemma thrown_never_true [simp]: "thrown r \<noteq> Inr True"
  by (cases r) simp_all

lemma mark_manifest:
  "files (manifest (snd (mark os p s st))) = set_status p s (files (manifest st))"
  by (cases "find (\<lambda>f. path f = p) (files (manifest st))")
     (simp_all add: mark_def set_status_no_match Let_def)

lemma mark_frame [simp]:
  "out (snd (mark os p s st)) = out st"
  "specContent (snd (mark os p s st)) = specContent st"
  by (cases "find (\<lambda>f. path f = p) (files (manifest st))"; simp add: mark_def Let_def)+



lemma mark_never_true: "fst (mark os p s st) \<noteq> Inr True"
  by (cases "find (\<lambda>f. path f = p) (files (manifest st))"; simp add: mark_def Let_def)

subsection \<open>The branches of the interpreter\<close>

lemma push_simps [simp]:
  "files (manifest (push f st)) = files (manifest st) @ [f]"
  "disk (push f st) = disk st"
  "out (push f st) = out st"
  "calls (push f st) = calls st"
  "specContent (push f st) = specContent st"
  by (simp_all add: push_def)

lemma apply_add_manifest:
  "files (manifest (snd (apply_add os p d st)))
     = files (manifest st) @ [\<lparr>path = p, description = d, status = Pending\<rparr>]"
  by (simp add: apply_add_def Let_def)

lemma apply_update_manifest:
  "files (manifest (snd (apply_update os p v w st))) = files (manifest st)
   \<or> files (manifest (snd (apply_update os p v w st))) = set_status p Generated (files (manifest st))"
  by (simp add: apply_update_def Let_def mark_manifest split: option.splits)

lemma apply_remove_manifest:
  "files (manifest (snd (apply_remove os p st))) = files (manifest st)
   \<or> files (manifest (snd (apply_remove os p st))) = set_status p Deleted (files (manifest st))"
  by (simp add: apply_remove_def Let_def mark_manifest split: option.splits)

lemma keeps_refl: "keeps xs xs"
  by (simp add: keeps_def)

lemma keeps_trans: "keeps xs ys \<Longrightarrow> keeps ys zs \<Longrightarrow> keeps xs zs"
  unfolding keeps_def by (metis (no_types, lifting) le_trans less_le_trans)

lemma keeps_append: "keeps xs (xs @ [e])"
  by (simp add: keeps_def nth_append)

lemma keeps_set_status: "s \<noteq> Pending \<Longrightarrow> keeps xs (set_status p s xs)"
  by (simp add: keeps_def set_status_nth)

lemma processCommand_manifest_cases:
  "files (manifest (snd (processCommand os c st))) = files (manifest st)
   \<or> (\<exists>e. files (manifest (snd (processCommand os c st))) = files (manifest st) @ [e])
   \<or> (\<exists>q s. s \<noteq> Pending
          \<and> files (manifest (snd (processCommand os c st))) = set_status q s (files (manifest st)))"
proof (cases "add c")
  case (Some a)
  then show ?thesis using apply_add_manifest[of os "fst a" "snd a" st]
    by (cases a) (simp add: processCommand_def)
next
  case None
  note a = None
  show ?thesis
  proof (cases "update c")
    case (Some u)
    obtain p v w where u: "u = (p, v, w)" by (cases u)
    have "processCommand os c st = apply_update os p v w st"
      using a Some u by (simp add: processCommand_def)
    then show ?thesis using apply_update_manifest[of os p v w st] by auto
  next
    case None
    note b = None
    show ?thesis
    proof (cases "remove c")
      case (Some p)
      have "processCommand os c st = apply_remove os p st"
        using a b Some by (simp add: processCommand_def)
      then show ?thesis using apply_remove_manifest[of os p st] by auto
    next
      case None
      then show ?thesis using a b
        by (simp add: processCommand_def apply_finish_def split: option.splits)
    qed
  qed
qed

lemma processCommand_keeps:
  "keeps (files (manifest st)) (files (manifest (snd (processCommand os c st))))"
  using processCommand_manifest_cases[of os c st] keeps_refl keeps_append keeps_set_status
  by metis

lemma commands_loop_keeps:
  "keeps (files (manifest st)) (files (manifest (snd (commands_loop os cs st))))"
proof (induction cs arbitrary: st)
  case Nil show ?case by (simp add: keeps_refl)
next
  case (Cons c cs)
  obtain r st' where pc: "processCommand os c st = (r, st')" by (cases "processCommand os c st")
  have k1: "keeps (files (manifest st)) (files (manifest st'))"
    using processCommand_keeps[of st os c] pc by simp
  show ?case
  proof (cases r)
    case (Inl e)
    then show ?thesis using pc k1 by simp
  next
    case (Inr b)
    show ?thesis
    proof (cases b)
      case True then show ?thesis using pc k1 Inr by simp
    next
      case False
      then have "commands_loop os (c # cs) st = commands_loop os cs st'" using pc Inr by simp
      then show ?thesis using k1 Cons.IH[of st'] keeps_trans by metis
    qed
  qed
qed

lemma processCommand_status_change:
  assumes "i < length (files (manifest st))"
    and "status (files (manifest (snd (processCommand os c st))) ! i) \<noteq> status (files (manifest st) ! i)"
  shows "(add c = None \<and> (\<exists>v w. update c = Some (path (files (manifest st) ! i), v, w))
            \<and> status (files (manifest (snd (processCommand os c st))) ! i) = Generated)
       \<or> (add c = None \<and> update c = None \<and> remove c = Some (path (files (manifest st) ! i))
            \<and> status (files (manifest (snd (processCommand os c st))) ! i) = Deleted)"
proof (cases "add c")
  case (Some a)
  then show ?thesis using assms apply_add_manifest[of os "fst a" "snd a" st]
    by (cases a) (simp add: processCommand_def nth_append)
next
  case None
  note a = None
  show ?thesis
  proof (cases "update c")
    case (Some u)
    obtain p v w where u: "u = (p, v, w)" by (cases u)
    have pc: "processCommand os c st = apply_update os p v w st"
      using a Some u by (simp add: processCommand_def)
    from apply_update_manifest[of os p v w st] show ?thesis
      using assms a Some u pc set_status_nth[of i "files (manifest st)" p Generated]
      by (auto split: if_splits)
  next
    case None
    note b = None
    show ?thesis
    proof (cases "remove c")
      case (Some p)
      have pc: "processCommand os c st = apply_remove os p st"
        using a b Some by (simp add: processCommand_def)
      from apply_remove_manifest[of os p st] show ?thesis
        using assms a b Some pc set_status_nth[of i "files (manifest st)" p Deleted]
        by (auto split: if_splits)
    next
      case None
      then show ?thesis using assms a b
        by (simp add: processCommand_def apply_finish_def split: option.splits)
    qed
  qed
qed

lemma commands_loop_append:
  "commands_loop os (xs @ ys) st =
     (case commands_loop os xs st of
        (Inr False, st1) \<Rightarrow> commands_loop os ys st1
      | other \<Rightarrow> other)"
  by (induction xs arbitrary: st) (simp_all split: prod.splits sum.splits bool.splits)

lemma processCommand_finish:
  "add f = None \<Longrightarrow> update f = None \<Longrightarrow> remove f = None \<Longrightarrow> finish f = Some r \<Longrightarrow>
   processCommand os f st = apply_finish r st"
  by (simp add: processCommand_def)

lemma apply_add_never_true: "fst (apply_add os p d st) \<noteq> Inr True"
  by (simp add: apply_add_def Let_def)

lemma apply_update_never_true: "fst (apply_update os p v w st) \<noteq> Inr True"
  by (simp add: apply_update_def Let_def mark_never_true split: option.splits)

lemma apply_remove_never_true: "fst (apply_remove os p st) \<noteq> Inr True"
  by (simp add: apply_remove_def Let_def mark_never_true split: option.splits)

lemma processCommand_true:
  "fst (processCommand os c st) = Inr True \<Longrightarrow>
   add c = None \<and> update c = None \<and> remove c = None \<and> finish c \<noteq> None"
  by (auto simp: processCommand_def apply_add_never_true apply_update_never_true
        apply_remove_never_true split: option.splits)

lemma commands_loop_true:
  "fst (commands_loop os cs st) = Inr True \<Longrightarrow>
   \<exists>c \<in> set cs. add c = None \<and> update c = None \<and> remove c = None \<and> finish c \<noteq> None"
proof (induction cs arbitrary: st)
  case Nil then show ?case by simp
next
  case (Cons c cs)
  obtain r st' where pc: "processCommand os c st = (r, st')" by (cases "processCommand os c st")
  show ?case
  proof (cases "r = Inr False")
    case True
    then have "fst (commands_loop os cs st') = Inr True" using Cons.prems pc by simp
    then show ?thesis using Cons.IH by auto
  next
    case False
    then have "r = Inr True" using Cons.prems pc by (cases r) (auto split: bool.splits)
    then have "fst (processCommand os c st) = Inr True" using pc by simp
    then show ?thesis using processCommand_true by auto
  qed
qed

text \<open>The interpreter prints and diagnoses; it sends no request and catches nothing.\<close>

lemma processCommand_out:
  "\<exists>es. out (snd (processCommand os c st)) = out st @ es
        \<and> invocations es = 0 \<and> failed_cycles es = 0"
proof -
  have a: "\<And>p d. \<exists>es. out (snd (apply_add os p d st)) = out st @ es
             \<and> invocations es = 0 \<and> failed_cycles es = 0"
    by (simp add: apply_add_def Let_def)
  have b: "\<And>p v w. \<exists>es. out (snd (apply_update os p v w st)) = out st @ es
             \<and> invocations es = 0 \<and> failed_cycles es = 0"
    by (simp add: apply_update_def Let_def split: option.splits)
  have c: "\<And>p. \<exists>es. out (snd (apply_remove os p st)) = out st @ es
             \<and> invocations es = 0 \<and> failed_cycles es = 0"
    by (simp add: apply_remove_def Let_def split: option.splits)
  have d: "\<And>r. \<exists>es. out (snd (apply_finish r st)) = out st @ es
             \<and> invocations es = 0 \<and> failed_cycles es = 0"
    by (simp add: apply_finish_def)
  show ?thesis using a b c d
    by (simp add: processCommand_def split: option.splits prod.splits)
qed

lemma processCommand_counts:
  "invocations (out (snd (processCommand os c st))) = invocations (out st)"
  "failed_cycles (out (snd (processCommand os c st))) = failed_cycles (out st)"
  using processCommand_out[of os c st] by auto

lemma commands_loop_counts:
  "invocations (out (snd (commands_loop os cs st))) = invocations (out st)
   \<and> failed_cycles (out (snd (commands_loop os cs st))) = failed_cycles (out st)"
proof (induction cs arbitrary: st)
  case Nil show ?case by simp
next
  case (Cons c cs)
  obtain r st' where pc: "processCommand os c st = (r, st')" by (cases "processCommand os c st")
  have i: "invocations (out st') = invocations (out st)"
    "failed_cycles (out st') = failed_cycles (out st)"
    using processCommand_counts[of os c st] pc by simp_all
  show ?case using pc i Cons.IH[of st']
    by (cases r) (auto split: bool.splits)
qed

lemma processCommands_counts:
  "invocations (out (snd (processCommands os cs st))) = invocations (out st)"
  "failed_cycles (out (snd (processCommands os cs st))) = failed_cycles (out st)"
  by (simp_all add: processCommands_def commands_loop_counts)

subsection \<open>The driver\<close>



lemma generate_loop_failure:
  assumes "preload os (specContent st) (disk st) = Inr pl"
    and "cycle_failure os r (emit (MessagesCreate (request pl (manifest st) errors)) st) = Some (e, st2)"
  shows "generate_loop os (r # rs) errors st =
           (if errors \<noteq> [] then (FatalError, emit (Failure errors e) st2)
            else generate_loop os rs (split_lines (error_text e)) (emit (ConsoleLog e) st2))"
proof (cases r)
  case (Throws e')
  then show ?thesis using assms by (simp add: Let_def catch_block_def)
next
  case (Commands cs)
  have pc: "processCommands os cs (emit (MessagesCreate (request pl (manifest st) errors)) st)
              = (Inl e, st2)"
    using assms(2) Commands by (auto split: prod.splits sum.splits)
  show ?thesis using assms(1) Commands pc by (simp add: Let_def catch_block_def)
qed




section \<open>The Generation Driver: claims\<close>




text \<open>
  C4, as the specification states it, does not hold for every batch that contains a Finish:
  a command before the Finish can throw. Here the Remove of a missing file throws, the
  interpreter does not return true, the loop takes the error as feedback and sends a second
  request to the Content Generator.
\<close>

theorem finish_after_failure_counterexample:
  "finish (FinishCommand ''done'') = Some ''done''
   \<and> fst (processCommands node_os [RemoveCommand ''missing.ts'', FinishCommand ''done''] gen0)
       = Inl (sys_error ''ENOENT'' ''unlink'' ''missing.ts'')
   \<and> fst (generate node_os [Commands [RemoveCommand ''missing.ts'', FinishCommand ''done''],
                             Commands []] gen0)
       = Looping [error_text (sys_error ''ENOENT'' ''unlink'' ''missing.ts'')]
   \<and> invocations (out (snd (generate node_os
         [Commands [RemoveCommand ''missing.ts'', FinishCommand ''done''], Commands []] gen0))) = 2"
  by (simp add: interp_defs call_defs ex_defs command_defs gen0_def)

text \<open>
  C4, amended. Let \<open>f\<close> be a command that the probes take for a Finish (no add, update or
  remove key, a finish key), in a batch whose commands before \<open>f\<close> are applied without an
  error and without finishing. Then the interpreter prints the report of \<open>f\<close> and returns
  true, and the state is the one the commands before \<open>f\<close> left, but for the two printed
  texts. Whether or not the commands before it succeed, no command after \<open>f\<close> is applied.
  When the interpreter returns true the loop of the Driver ends as \<open>Finished\<close>, having sent
  exactly one request in this cycle and none after it. A batch with no Finish never makes
  the interpreter return true; when it returns false the loop goes on with the next cycle.
\<close>

theorem finish_halts_batch_and_run:
  assumes "add f = None" and "update f = None" and "remove f = None" and "finish f = Some r"
    and "commands_loop os pre st = (Inr False, st1)"
  shows "commands_loop os (pre @ f # post) st
           = (Inr True, emit (Stdout r) (emit (Stdout ([CHR 0x0A] @ ''Generation complete!'' @ [CHR 0x0A])) st1))
       \<and> commands_loop os (pre @ f # post) st = commands_loop os (pre @ [f]) st
       \<and> (\<forall>pl st2. preload os (specContent g) (disk g) = Inr pl
             \<and> processCommands os (pre @ f # post) (emit (MessagesCreate (request pl (manifest g) errors)) g)
                 = (Inr True, st2) \<longrightarrow>
             generate_loop os (Commands (pre @ f # post) # rest) errors g = (Finished, st2)
           \<and> invocations (out st2) = Suc (invocations (out g)))
       \<and> ((\<forall>c \<in> set cs. add c \<noteq> None \<or> update c \<noteq> None \<or> remove c \<noteq> None \<or> finish c = None)
             \<longrightarrow> fst (commands_loop os cs st) \<noteq> Inr True)
       \<and> (\<forall>pl st2. preload os (specContent g) (disk g) = Inr pl
             \<and> processCommands os cs (emit (MessagesCreate (request pl (manifest g) errors)) g)
                 = (Inr False, st2) \<longrightarrow>
             generate_loop os (Commands cs # rest) errors g = generate_loop os rest errors st2)"
proof -
  have pf: "\<And>s. processCommand os f s = apply_finish r s"
    using assms(1-4) by (rule processCommand_finish)
  have a: "commands_loop os (pre @ f # post) st
           = (Inr True, emit (Stdout r) (emit (Stdout ([CHR 0x0A] @ ''Generation complete!'' @ [CHR 0x0A])) st1))"
    using assms(5) by (simp add: commands_loop_append pf apply_finish_def)
  have b: "commands_loop os (pre @ f # post) st = commands_loop os (pre @ [f]) st"
    by (simp add: commands_loop_append pf apply_finish_def split: prod.splits sum.splits bool.splits)
  have c: "\<forall>pl st2. preload os (specContent g) (disk g) = Inr pl
             \<and> processCommands os (pre @ f # post) (emit (MessagesCreate (request pl (manifest g) errors)) g)
                 = (Inr True, st2) \<longrightarrow>
             generate_loop os (Commands (pre @ f # post) # rest) errors g = (Finished, st2)
           \<and> invocations (out st2) = Suc (invocations (out g))"
  proof (intro allI impI)
    fix pl st2
    assume h: "preload os (specContent g) (disk g) = Inr pl
             \<and> processCommands os (pre @ f # post) (emit (MessagesCreate (request pl (manifest g) errors)) g)
                 = (Inr True, st2)"
    let ?g1 = "emit (MessagesCreate (request pl (manifest g) errors)) g"
    have 1: "generate_loop os (Commands (pre @ f # post) # rest) errors g = (Finished, st2)"
      using h by (simp add: Let_def)
    have "invocations (out (snd (processCommands os (pre @ f # post) ?g1))) = invocations (out ?g1)"
      by (rule processCommands_counts(1))
    then have 2: "invocations (out st2) = Suc (invocations (out g))"
      using h by simp
    show "generate_loop os (Commands (pre @ f # post) # rest) errors g = (Finished, st2)
           \<and> invocations (out st2) = Suc (invocations (out g))"
      using 1 2 by simp
  qed
  have d: "(\<forall>c \<in> set cs. add c \<noteq> None \<or> update c \<noteq> None \<or> remove c \<noteq> None \<or> finish c = None)
             \<longrightarrow> fst (commands_loop os cs st) \<noteq> Inr True"
  proof
    assume h: "\<forall>c \<in> set cs. add c \<noteq> None \<or> update c \<noteq> None \<or> remove c \<noteq> None \<or> finish c = None"
    show "fst (commands_loop os cs st) \<noteq> Inr True"
    proof
      assume t: "fst (commands_loop os cs st) = Inr True"
      have "\<exists>c \<in> set cs. add c = None \<and> update c = None \<and> remove c = None \<and> finish c \<noteq> None"
        using t by (rule commands_loop_true)
      then obtain c where c: "c \<in> set cs"
        and k: "add c = None \<and> update c = None \<and> remove c = None \<and> finish c \<noteq> None" ..
      from h c have "add c \<noteq> None \<or> update c \<noteq> None \<or> remove c \<noteq> None \<or> finish c = None"
        by (rule bspec)
      with k show False by simp
    qed
  qed
  have e: "\<forall>pl st2. preload os (specContent g) (disk g) = Inr pl
             \<and> processCommands os cs (emit (MessagesCreate (request pl (manifest g) errors)) g)
                 = (Inr False, st2) \<longrightarrow>
             generate_loop os (Commands cs # rest) errors g = generate_loop os rest errors st2"
  proof (intro allI impI)
    fix pl st2
    assume h: "preload os (specContent g) (disk g) = Inr pl
             \<and> processCommands os cs (emit (MessagesCreate (request pl (manifest g) errors)) g)
                 = (Inr False, st2)"
    show "generate_loop os (Commands cs # rest) errors g = generate_loop os rest errors st2"
      using h by (simp add: Let_def)
  qed
  show ?thesis by (intro conjI) (rule a, rule b, rule c, rule d, rule e)
qed

theorem finish_halts_batch_and_run_witness:
  "add (FinishCommand ''done'') = None \<and> update (FinishCommand ''done'') = None
   \<and> remove (FinishCommand ''done'') = None \<and> finish (FinishCommand ''done'') = Some ''done''
   \<and> fst (commands_loop node_os [AddCommand ''src/b.ts'' ''d''] gen1) = Inr False
   \<and> fst (commands_loop node_os
            ([AddCommand ''src/b.ts'' ''d''] @ FinishCommand ''done'' # [RemoveCommand ''src/a.ts'']) gen1)
       = Inr True
   \<and> readFile node_os ''src/a.ts'' (disk (snd (commands_loop node_os
            ([AddCommand ''src/b.ts'' ''d''] @ FinishCommand ''done'' # [RemoveCommand ''src/a.ts'']) gen1)))
       = Inr (Text ''export const a = 1;'')
   \<and> preload node_os (specContent gen1) (disk gen1) = Inr []
   \<and> fst (generate_loop node_os
            [Commands ([AddCommand ''src/b.ts'' ''d''] @ FinishCommand ''done'' # [RemoveCommand ''src/a.ts'']),
             Commands []] [] gen1) = Finished
   \<and> invocations (out (snd (generate_loop node_os
            [Commands ([AddCommand ''src/b.ts'' ''d''] @ FinishCommand ''done'' # [RemoveCommand ''src/a.ts'']),
             Commands []] [] gen1))) = 1
   \<and> fst (commands_loop node_os [AddCommand ''src/b.ts'' ''d'', RemoveCommand ''src/a.ts''] gen1)
       = Inr False"
  using
    finish_halts_batch_and_run [where f = "FinishCommand ''done''" and r = "''done''"
      and os = node_os and pre = "[AddCommand ''src/b.ts'' ''d'']" and st = gen1
      and ?st1.0 = "snd (commands_loop node_os [AddCommand ''src/b.ts'' ''d''] gen1)"
      and post = "[RemoveCommand ''src/a.ts'']" and g = gen1 and errors = "[]"
      and rest = "[Commands []]"
      and cs = "[AddCommand ''src/b.ts'' ''d'', RemoveCommand ''src/a.ts'']"]
  by (simp add: interp_defs call_defs ex_defs command_defs gen1_def)

section \<open>The Command Interpreter: claims\<close>

text \<open>
  C2, as the specification states it, does not hold: an update whose content is not a
  string is reported and then handled like any other update, nothing is skipped. On the
  example platform, which refuses a number as data: the parent directory has been made by
  then, and the refusal, coming after an earlier failure of the run, is fatal. An array is
  not a string either, and is written: the file is emptied and its elements are written
  up to the first that is not a string, so the file on disk is changed.
\<close>

theorem non_string_content_counterexample:
  "\<not> is_string (JNumber 42)
   \<and> \<not> exists node_os ''src'' (disk gen0)
   \<and> exists node_os ''src'' (disk (snd (processCommands node_os
          [UpdateCommand ''src/a.ts'' (JNumber 42) ''w''] gen0)))
   \<and> fst (generate node_os [Throws (Error [] ''SyntaxError: Unexpected end of JSON input''),
          Commands [UpdateCommand ''src/a.ts'' (JNumber 42) ''w'']] gen0) = FatalError
   \<and> \<not> is_string (JArray [JString ''ab'', JNumber 1])
   \<and> readFile node_os ''src/a.ts'' (disk gen1) = Inr (Text ''export const a = 1;'')
   \<and> fst (processCommands node_os
          [UpdateCommand ''src/a.ts'' (JArray [JString ''ab'', JNumber 1]) ''w''] gen1)
       = Inl (bad_chunk (JNumber 1))
   \<and> readFile node_os ''src/a.ts'' (disk (snd (processCommands node_os
          [UpdateCommand ''src/a.ts'' (JArray [JString ''ab'', JNumber 1]) ''w''] gen1)))
       = Inr (Text ''ab'')"
  by (simp add: interp_defs call_defs ex_defs command_defs gen0_def gen1_def)

text \<open>
  C2, amended. For an update command whose content is not a string the interpreter prints
  the diagnostic and goes on as for any update: it makes the parent directory and, when
  that has succeeded, hands the content to the file write. It skips nothing itself. When
  the directory cannot be made or the write throws, the error leaves the interpreter with
  the manifest unchanged and the disk as the failed call left it, and the Driver counts
  the cycle as failed: fatal when feedback is pending, and otherwise the one retry of the
  run. When the write succeeds, the first entry with the path of the command is set to
  \<open>Generated\<close>, as for any update.
\<close>

theorem update_with_non_string_content:
  assumes "add c = None" and "update c = Some (p, v, why)" and "\<not> is_string v"
  shows "out (snd (processCommand os c st))
           = out st @ [Stdout (''UPDATE '' @ p @ [CHR 0x0A]), UnexpectedContent p v why]
       \<and> (\<forall>e. fst (mkdir_p os (dirname p) (disk st)) = Some e \<longrightarrow>
             fst (processCommand os c st) = Inl e
           \<and> manifest (snd (processCommand os c st)) = manifest st
           \<and> disk (snd (processCommand os c st)) = snd (mkdir_p os (dirname p) (disk st))
           \<and> calls (snd (processCommand os c st)) = calls st @ [Mkdir (dirname p)])
       \<and> (\<forall>e. fst (mkdir_p os (dirname p) (disk st)) = None
                \<and> fst (writeFile os p (Data v) (snd (mkdir_p os (dirname p) (disk st)))) = Some e \<longrightarrow>
             fst (processCommand os c st) = Inl e
           \<and> manifest (snd (processCommand os c st)) = manifest st
           \<and> disk (snd (processCommand os c st))
               = snd (writeFile os p (Data v) (snd (mkdir_p os (dirname p) (disk st))))
           \<and> calls (snd (processCommand os c st))
               = calls st @ [Mkdir (dirname p), WriteFile p (Data v)])
       \<and> (fst (mkdir_p os (dirname p) (disk st)) = None
            \<and> fst (writeFile os p (Data v) (snd (mkdir_p os (dirname p) (disk st)))) = None \<longrightarrow>
             take 2 (drop (length (calls st)) (calls (snd (processCommand os c st))))
               = [Mkdir (dirname p), WriteFile p (Data v)]
           \<and> (\<forall>i<length (files (manifest st)).
                 files (manifest (snd (processCommand os c st))) ! i =
                   (if path (files (manifest st) ! i) = p
                        \<and> (\<forall>j<i. path (files (manifest st) ! j) \<noteq> p)
                    then (files (manifest st) ! i)\<lparr>status := Generated\<rparr>
                    else files (manifest st) ! i)))
       \<and> (\<forall>pl e. preload os (specContent g) (disk g) = Inr pl
                \<and> fst (processCommand os c
                         (emit (Stdout (''Received '' @ show_nat (length (c # cs))
                                          @ '' commands from Claude'' @ [CHR 0x0A]))
                            (emit (MessagesCreate (request pl (manifest g) errors)) g))) = Inl e \<longrightarrow>
             (errors \<noteq> [] \<longrightarrow>
                fst (generate_loop os (Commands (c # cs) # rest) errors g) = FatalError)
           \<and> (errors = [] \<longrightarrow>
                generate_loop os (Commands (c # cs) # rest) errors g =
                  generate_loop os rest (split_lines (error_text e))
                    (emit (ConsoleLog e)
                       (snd (processCommands os (c # cs)
                               (emit (MessagesCreate (request pl (manifest g) errors)) g))))))"
proof -
  have pc: "\<And>s. processCommand os c s = apply_update os p v why s"
    using assms(1,2) by (simp add: processCommand_def)
  have a: "out (snd (processCommand os c st))
           = out st @ [Stdout (''UPDATE '' @ p @ [CHR 0x0A]), UnexpectedContent p v why]"
    using assms(3) by (simp add: pc apply_update_def Let_def split: option.splits)
  have b: "\<forall>e. fst (mkdir_p os (dirname p) (disk st)) = Some e \<longrightarrow>
             fst (processCommand os c st) = Inl e
           \<and> manifest (snd (processCommand os c st)) = manifest st
           \<and> disk (snd (processCommand os c st)) = snd (mkdir_p os (dirname p) (disk st))
           \<and> calls (snd (processCommand os c st)) = calls st @ [Mkdir (dirname p)]"
    using assms(3) by (simp add: pc apply_update_def Let_def)
  have c: "\<forall>e. fst (mkdir_p os (dirname p) (disk st)) = None
                \<and> fst (writeFile os p (Data v) (snd (mkdir_p os (dirname p) (disk st)))) = Some e \<longrightarrow>
             fst (processCommand os c st) = Inl e
           \<and> manifest (snd (processCommand os c st)) = manifest st
           \<and> disk (snd (processCommand os c st))
               = snd (writeFile os p (Data v) (snd (mkdir_p os (dirname p) (disk st))))
           \<and> calls (snd (processCommand os c st))
               = calls st @ [Mkdir (dirname p), WriteFile p (Data v)]"
    using assms(3) by (simp add: pc apply_update_def Let_def)
  have d: "fst (mkdir_p os (dirname p) (disk st)) = None
            \<and> fst (writeFile os p (Data v) (snd (mkdir_p os (dirname p) (disk st)))) = None \<longrightarrow>
             take 2 (drop (length (calls st)) (calls (snd (processCommand os c st))))
               = [Mkdir (dirname p), WriteFile p (Data v)]
           \<and> (\<forall>i<length (files (manifest st)).
                 files (manifest (snd (processCommand os c st))) ! i =
                   (if path (files (manifest st) ! i) = p
                        \<and> (\<forall>j<i. path (files (manifest st) ! j) \<noteq> p)
                    then (files (manifest st) ! i)\<lparr>status := Generated\<rparr>
                    else files (manifest st) ! i))"
  proof
    assume h: "fst (mkdir_p os (dirname p) (disk st)) = None
            \<and> fst (writeFile os p (Data v) (snd (mkdir_p os (dirname p) (disk st)))) = None"
    let ?st2 = "emit (UnexpectedContent p v why) (emit (Stdout (''UPDATE '' @ p @ [CHR 0x0A])) st)"
    let ?st4 = "snd (fs_writeFile os p (Data v) (snd (fs_mkdir os (dirname p) ?st2)))"
    have eq: "processCommand os c st = mark os p Generated ?st4"
      using assms(3) h by (simp add: pc apply_update_def Let_def)
    have m4: "files (manifest ?st4) = files (manifest st)" by simp
    have c4: "calls ?st4 = calls st @ [Mkdir (dirname p), WriteFile p (Data v)]" by simp
    have "\<exists>cs'. calls (snd (mark os p Generated ?st4)) = calls ?st4 @ cs'"
      by (cases "find (\<lambda>f. path f = p) (files (manifest ?st4))") (simp_all add: mark_def Let_def)
    then have 1: "take 2 (drop (length (calls st)) (calls (snd (processCommand os c st))))
               = [Mkdir (dirname p), WriteFile p (Data v)]"
      using eq c4 by auto
    have "files (manifest (snd (processCommand os c st))) = set_status p Generated (files (manifest st))"
      using eq mark_manifest[of os p Generated ?st4] m4 by simp
    then have 2: "\<forall>i<length (files (manifest st)).
                 files (manifest (snd (processCommand os c st))) ! i =
                   (if path (files (manifest st) ! i) = p
                        \<and> (\<forall>j<i. path (files (manifest st) ! j) \<noteq> p)
                    then (files (manifest st) ! i)\<lparr>status := Generated\<rparr>
                    else files (manifest st) ! i)"
      using set_status_nth[of _ "files (manifest st)" p Generated] by simp
    show "take 2 (drop (length (calls st)) (calls (snd (processCommand os c st))))
               = [Mkdir (dirname p), WriteFile p (Data v)]
           \<and> (\<forall>i<length (files (manifest st)).
                 files (manifest (snd (processCommand os c st))) ! i =
                   (if path (files (manifest st) ! i) = p
                        \<and> (\<forall>j<i. path (files (manifest st) ! j) \<noteq> p)
                    then (files (manifest st) ! i)\<lparr>status := Generated\<rparr>
                    else files (manifest st) ! i))"
      using 1 2 by (rule conjI)
  qed
  have e: "\<forall>pl e. preload os (specContent g) (disk g) = Inr pl
                \<and> fst (processCommand os c
                         (emit (Stdout (''Received '' @ show_nat (length (c # cs))
                                          @ '' commands from Claude'' @ [CHR 0x0A]))
                            (emit (MessagesCreate (request pl (manifest g) errors)) g))) = Inl e \<longrightarrow>
             (errors \<noteq> [] \<longrightarrow>
                fst (generate_loop os (Commands (c # cs) # rest) errors g) = FatalError)
           \<and> (errors = [] \<longrightarrow>
                generate_loop os (Commands (c # cs) # rest) errors g =
                  generate_loop os rest (split_lines (error_text e))
                    (emit (ConsoleLog e)
                       (snd (processCommands os (c # cs)
                               (emit (MessagesCreate (request pl (manifest g) errors)) g)))))"
  proof (intro allI impI)
    fix pl e
    assume h: "preload os (specContent g) (disk g) = Inr pl
                \<and> fst (processCommand os c
                         (emit (Stdout (''Received '' @ show_nat (length (c # cs))
                                          @ '' commands from Claude'' @ [CHR 0x0A]))
                            (emit (MessagesCreate (request pl (manifest g) errors)) g))) = Inl e"
    let ?g1 = "emit (MessagesCreate (request pl (manifest g) errors)) g"
    let ?g2 = "emit (Stdout (''Received '' @ show_nat (length (c # cs))
                               @ '' commands from Claude'' @ [CHR 0x0A])) ?g1"
    obtain r s where rs: "processCommand os c ?g2 = (r, s)" by (cases "processCommand os c ?g2")
    then have r: "r = Inl e" using h by simp
    have pcs: "processCommands os (c # cs) ?g1 = (Inl e, s)"
      using rs r by (simp add: processCommands_def)
    then have cf: "cycle_failure os (Commands (c # cs)) ?g1 = Some (e, s)" by simp
    have h1: "preload os (specContent g) (disk g) = Inr pl" using h by simp
    have gl: "generate_loop os (Commands (c # cs) # rest) errors g =
           (if errors \<noteq> [] then (FatalError, emit (Failure errors e) s)
            else generate_loop os rest (split_lines (error_text e)) (emit (ConsoleLog e) s))"
      using generate_loop_failure[OF h1 cf] .
    have s: "s = snd (processCommands os (c # cs) ?g1)" using pcs by simp
    show "(errors \<noteq> [] \<longrightarrow>
                fst (generate_loop os (Commands (c # cs) # rest) errors g) = FatalError)
           \<and> (errors = [] \<longrightarrow>
                generate_loop os (Commands (c # cs) # rest) errors g =
                  generate_loop os rest (split_lines (error_text e))
                    (emit (ConsoleLog e)
                       (snd (processCommands os (c # cs)
                               (emit (MessagesCreate (request pl (manifest g) errors)) g)))))"
    proof (cases "errors = []")
      case True
      then show ?thesis using gl s by (simp del: generate_loop.simps)
    next
      case False
      then show ?thesis using gl by (simp del: generate_loop.simps)
    qed
  qed
  show ?thesis by (intro conjI) (rule a, rule b, rule c, rule d, rule e)
qed

theorem update_with_non_string_content_witness:
  "add (UpdateCommand ''src/a.ts'' (JNumber 42) ''w'') = None
   \<and> update (UpdateCommand ''src/a.ts'' (JNumber 42) ''w'') = Some (''src/a.ts'', JNumber 42, ''w'')
   \<and> \<not> is_string (JNumber 42)
   \<and> out (snd (processCommand node_os (UpdateCommand ''src/a.ts'' (JNumber 42) ''w'') gen0))
       = [Stdout (''UPDATE src/a.ts'' @ [CHR 0x0A]), UnexpectedContent ''src/a.ts'' (JNumber 42) ''w'']
   \<and> fst (mkdir_p node_os (dirname ''src/a.ts'') (disk gen0)) = None
   \<and> fst (writeFile node_os ''src/a.ts'' (Data (JNumber 42))
            (snd (mkdir_p node_os (dirname ''src/a.ts'') (disk gen0)))) = Some (bad_data (JNumber 42))
   \<and> fst (processCommand node_os (UpdateCommand ''src/a.ts'' (JNumber 42) ''w'') gen0)
       = Inl (bad_data (JNumber 42))
   \<and> calls (snd (processCommand node_os (UpdateCommand ''src/a.ts'' (JNumber 42) ''w'') gen0))
       = [Mkdir ''src'', WriteFile ''src/a.ts'' (Data (JNumber 42))]
   \<and> preload node_os (specContent gen0) (disk gen0) = Inr []
   \<and> [''SyntaxError: Unexpected end of JSON input''] \<noteq> []
   \<and> fst (generate_loop node_os [Commands [UpdateCommand ''src/a.ts'' (JNumber 42) ''w'']]
            [''SyntaxError: Unexpected end of JSON input''] gen0) = FatalError
   \<and> fst (generate_loop node_os [Commands [UpdateCommand ''src/a.ts'' (JNumber 42) ''w'']] [] gen0)
       = Looping [error_text (bad_data (JNumber 42))]
   \<and> update (UpdateCommand ''src/a.ts'' (JArray [JString ''let '', JString ''b;'']) ''w'')
       = Some (''src/a.ts'', JArray [JString ''let '', JString ''b;''], ''w'')
   \<and> \<not> is_string (JArray [JString ''let '', JString ''b;''])
   \<and> fst (mkdir_p node_os (dirname ''src/a.ts'') (disk gen1)) = None
   \<and> fst (writeFile node_os ''src/a.ts'' (Data (JArray [JString ''let '', JString ''b;'']))
            (snd (mkdir_p node_os (dirname ''src/a.ts'') (disk gen1)))) = None
   \<and> files (manifest (snd (processCommand node_os
          (UpdateCommand ''src/a.ts'' (JArray [JString ''let '', JString ''b;'']) ''w'')
          (gen1\<lparr>manifest := \<lparr>files = [\<lparr>path = ''src/a.ts'', description = ''d'', status = Deleted\<rparr>]\<rparr>\<rparr>))))
       = [\<lparr>path = ''src/a.ts'', description = ''d'', status = Generated\<rparr>]
   \<and> readFile node_os ''src/a.ts'' (disk (snd (processCommand node_os
          (UpdateCommand ''src/a.ts'' (JArray [JString ''let '', JString ''b;'']) ''w'')
          (gen1\<lparr>manifest := \<lparr>files = [\<lparr>path = ''src/a.ts'', description = ''d'', status = Deleted\<rparr>]\<rparr>\<rparr>))))
       = Inr (Text ''let b;'')"
  using
    update_with_non_string_content [where c = "UpdateCommand ''src/a.ts'' (JNumber 42) ''w''"
      and p = "''src/a.ts''" and v = "JNumber 42" and why = "''w''" and os = node_os
      and st = gen0 and g = gen0 and errors = "[''SyntaxError: Unexpected end of JSON input'']"
      and cs = "[]" and rest = "[]"]
    update_with_non_string_content
      [where c = "UpdateCommand ''src/a.ts'' (JArray [JString ''let '', JString ''b;'']) ''w''"
      and p = "''src/a.ts''" and v = "JArray [JString ''let '', JString ''b;'']" and why = "''w''"
      and os = node_os
      and st = "gen1\<lparr>manifest := \<lparr>files = [\<lparr>path = ''src/a.ts'', description = ''d'', status = Deleted\<rparr>]\<rparr>\<rparr>"
      and g = gen1 and errors = "[]" and cs = "[]" and rest = "[]"]
  by (simp add: interp_defs call_defs ex_defs command_defs gen0_def gen1_def)

text \<open>
  C3, as the specification states it, does not hold: \<open>Deleted\<close> is not terminal. A Remove
  sets the entry of a generated file to \<open>Deleted\<close>, and the Update that follows in the same
  batch sets it to \<open>Generated\<close> again.
\<close>

theorem deleted_is_not_terminal_counterexample:
  "status (files (manifest gen1) ! 0) = Generated
   \<and> status (files (manifest (snd (processCommands node_os [RemoveCommand ''src/a.ts''] gen1))) ! 0)
       = Deleted
   \<and> fst (processCommands node_os [RemoveCommand ''src/a.ts'',
          UpdateCommand ''src/a.ts'' (JString ''x'') ''again''] gen1) = Inr False
   \<and> status (files (manifest (snd (processCommands node_os [RemoveCommand ''src/a.ts'',
          UpdateCommand ''src/a.ts'' (JString ''x'') ''again''] gen1))) ! 0) = Generated"
  by (simp add: interp_defs call_defs ex_defs command_defs gen1_def)

text \<open>
  C3, amended. Whatever commands are applied, no entry leaves the manifest or changes its
  place, path or description, and no entry that has left \<open>Pending\<close> returns to it. A single
  command changes the status of an entry only to \<open>Generated\<close>, when it is an Update on the
  path of the entry, or only to \<open>Deleted\<close>, when it is a Remove on that path; either from
  any status, so that an Update takes a \<open>Deleted\<close> entry back to \<open>Generated\<close>.
\<close>

theorem status_lifecycle:
  "length (files (manifest st)) \<le> length (files (manifest (snd (commands_loop os cs st))))
   \<and> (\<forall>i<length (files (manifest st)).
         path (files (manifest (snd (commands_loop os cs st))) ! i) = path (files (manifest st) ! i)
       \<and> description (files (manifest (snd (commands_loop os cs st))) ! i)
           = description (files (manifest st) ! i)
       \<and> (status (files (manifest (snd (commands_loop os cs st))) ! i) = Pending
            \<longrightarrow> status (files (manifest st) ! i) = Pending))
   \<and> (\<forall>i<length (files (manifest st)).
         status (files (manifest (snd (processCommand os c st))) ! i) \<noteq> status (files (manifest st) ! i)
         \<longrightarrow> (add c = None \<and> (\<exists>v w. update c = Some (path (files (manifest st) ! i), v, w))
                \<and> status (files (manifest (snd (processCommand os c st))) ! i) = Generated)
            \<or> (add c = None \<and> update c = None \<and> remove c = Some (path (files (manifest st) ! i))
                \<and> status (files (manifest (snd (processCommand os c st))) ! i) = Deleted))"
  using commands_loop_keeps[of st os cs] processCommand_status_change[of _ st os c]
  unfolding keeps_def by blast

theorem status_lifecycle_witness:
  "(0::nat) < length (files (manifest gen1))
   \<and> length (files (manifest gen1))
       \<le> length (files (manifest (snd (commands_loop node_os
            [RemoveCommand ''src/a.ts'', AddCommand ''src/b.ts'' ''d''] gen1))))
   \<and> path (files (manifest (snd (commands_loop node_os
            [RemoveCommand ''src/a.ts'', AddCommand ''src/b.ts'' ''d''] gen1))) ! 0) = ''src/a.ts''
   \<and> status (files (manifest (snd (commands_loop node_os
            [RemoveCommand ''src/a.ts'', AddCommand ''src/b.ts'' ''d''] gen1))) ! 0) \<noteq> Pending
   \<and> status (files (manifest (snd (processCommand node_os (RemoveCommand ''src/a.ts'') gen1))) ! 0)
       \<noteq> status (files (manifest gen1) ! 0)
   \<and> remove (RemoveCommand ''src/a.ts'') = Some (path (files (manifest gen1) ! 0))
   \<and> status (files (manifest (snd (processCommand node_os (RemoveCommand ''src/a.ts'') gen1))) ! 0)
       = Deleted"
  using status_lifecycle [where st = gen1 and os = node_os
      and cs = "[RemoveCommand ''src/a.ts'', AddCommand ''src/b.ts'' ''d'']"
      and c = "RemoveCommand ''src/a.ts''"]
  by (simp add: interp_defs call_defs ex_defs command_defs gen1_def)





text \<open>
  C6. An Add command appends the entry (path, description, \<open>Pending\<close>) to the end of the
  manifest, whatever entries are there, so that two entries can have one path. It makes no
  directory and writes no file other than the manifest document: the one call it makes on
  the disk is the write of the new manifest to the manifest path, the disk afterwards is
  the one that write leaves, and the command ends without an error exactly when the write
  does; where the written document can be read back, it is the new manifest. A command of
  any kind changes an entry only if no entry before it has the same path: lookups reach
  the first entry with a path and no other.
\<close>

theorem add_appends_pending:
  assumes "add c = Some (p, d)"
  shows "files (manifest (snd (processCommand os c st)))
           = files (manifest st) @ [\<lparr>path = p, description = d, status = Pending\<rparr>]
       \<and> calls (snd (processCommand os c st))
           = calls st @ [WriteFile manifestPath (Document (manifest (snd (processCommand os c st))))]
       \<and> disk (snd (processCommand os c st))
           = snd (writeFile os manifestPath (Document (manifest (snd (processCommand os c st))))
                    (disk st))
       \<and> fst (processCommand os c st)
           = thrown (fst (writeFile os manifestPath
                            (Document (manifest (snd (processCommand os c st)))) (disk st)))
       \<and> (fst (writeFile os manifestPath (Document (manifest (snd (processCommand os c st))))
                 (disk st)) = None
            \<and> readFile os manifestPath
                 (snd (writeFile os manifestPath (Document (manifest (snd (processCommand os c st))))
                         (disk st)))
               = Inr (Json_of (manifest (snd (processCommand os c st)))) \<longrightarrow>
             fst (processCommand os c st) = Inr False
           \<and> readFile os manifestPath (disk (snd (processCommand os c st)))
               = Inr (Json_of (manifest (snd (processCommand os c st)))))
       \<and> (\<forall>i<length (files (manifest st)).
             files (manifest (snd (processCommand os c' st))) ! i \<noteq> files (manifest st) ! i \<longrightarrow>
             (\<forall>j<i. path (files (manifest st) ! j) \<noteq> path (files (manifest st) ! i)))"
proof -
  have pc: "processCommand os c st = apply_add os p d st"
    using assms by (simp add: processCommand_def)
  have a: "files (manifest (snd (processCommand os c st)))
           = files (manifest st) @ [\<lparr>path = p, description = d, status = Pending\<rparr>]"
    using pc by (simp add: apply_add_manifest)
  have b: "calls (snd (processCommand os c st))
           = calls st @ [WriteFile manifestPath (Document (manifest (snd (processCommand os c st))))]"
    by (simp add: pc apply_add_def Let_def)
  have c: "disk (snd (processCommand os c st))
           = snd (writeFile os manifestPath (Document (manifest (snd (processCommand os c st))))
                    (disk st))"
    by (simp add: pc apply_add_def Let_def)
  have d: "fst (processCommand os c st)
           = thrown (fst (writeFile os manifestPath
                            (Document (manifest (snd (processCommand os c st)))) (disk st)))"
    by (simp add: pc apply_add_def Let_def)
  have e: "fst (writeFile os manifestPath (Document (manifest (snd (processCommand os c st))))
                 (disk st)) = None
            \<and> readFile os manifestPath
                 (snd (writeFile os manifestPath (Document (manifest (snd (processCommand os c st))))
                         (disk st)))
               = Inr (Json_of (manifest (snd (processCommand os c st)))) \<longrightarrow>
             fst (processCommand os c st) = Inr False
           \<and> readFile os manifestPath (disk (snd (processCommand os c st)))
               = Inr (Json_of (manifest (snd (processCommand os c st))))"
  proof
    assume h: "fst (writeFile os manifestPath (Document (manifest (snd (processCommand os c st))))
                 (disk st)) = None
            \<and> readFile os manifestPath
                 (snd (writeFile os manifestPath (Document (manifest (snd (processCommand os c st))))
                         (disk st)))
               = Inr (Json_of (manifest (snd (processCommand os c st))))"
    have 1: "fst (processCommand os c st) = Inr False"
      using d h by (simp only: thrown.simps)
    have 2: "readFile os manifestPath (disk (snd (processCommand os c st)))
               = Inr (Json_of (manifest (snd (processCommand os c st))))"
      using c h by metis
    show "fst (processCommand os c st) = Inr False
           \<and> readFile os manifestPath (disk (snd (processCommand os c st)))
               = Inr (Json_of (manifest (snd (processCommand os c st))))"
      using 1 2 by (rule conjI)
  qed
  have f: "\<forall>i<length (files (manifest st)).
             files (manifest (snd (processCommand os c' st))) ! i \<noteq> files (manifest st) ! i \<longrightarrow>
             (\<forall>j<i. path (files (manifest st) ! j) \<noteq> path (files (manifest st) ! i))"
  proof (intro allI impI)
    fix i j
    assume i: "i < length (files (manifest st))"
      and ne: "files (manifest (snd (processCommand os c' st))) ! i \<noteq> files (manifest st) ! i"
      and j: "j < i"
    let ?old = "files (manifest st)"
    let ?new = "files (manifest (snd (processCommand os c' st)))"
    have "?new = ?old \<or> (\<exists>e. ?new = ?old @ [e]) \<or> (\<exists>q s. ?new = set_status q s ?old)"
      using processCommand_manifest_cases[of os c' st] by blast
    then consider "?new = ?old" | e where "?new = ?old @ [e]" | q s where "?new = set_status q s ?old"
      by blast
    then show "path (?old ! j) \<noteq> path (?old ! i)"
    proof cases
      case 1 then show ?thesis using ne by simp
    next
      case 2 then show ?thesis using ne i by (simp add: nth_append)
    next
      case 3
      then have "path (?old ! i) = q \<and> (\<forall>j<i. path (?old ! j) \<noteq> q)"
        using ne i set_status_nth[of i ?old q s] by (auto split: if_splits)
      then show ?thesis using j by simp
    qed
  qed
  show ?thesis by (intro conjI) (rule a, rule b, rule c, rule d, rule e, rule f)
qed

theorem add_appends_pending_witness:
  "add (AddCommand ''src/a.ts'' ''again'') = Some (''src/a.ts'', ''again'')
   \<and> files (manifest (snd (processCommand node_os (AddCommand ''src/a.ts'' ''again'') gen1)))
       = [\<lparr>path = ''src/a.ts'', description = ''d'', status = Generated\<rparr>,
          \<lparr>path = ''src/a.ts'', description = ''again'', status = Pending\<rparr>]
   \<and> calls (snd (processCommand node_os (AddCommand ''src/a.ts'' ''again'') gen1))
       = [WriteFile manifestPath
            (Document \<lparr>files = [\<lparr>path = ''src/a.ts'', description = ''d'', status = Generated\<rparr>,
                                \<lparr>path = ''src/a.ts'', description = ''again'', status = Pending\<rparr>]\<rparr>)]
   \<and> fst (processCommand node_os (AddCommand ''src/a.ts'' ''again'') gen1) = Inr False
   \<and> readFile node_os manifestPath
        (disk (snd (processCommand node_os (AddCommand ''src/a.ts'' ''again'') gen1)))
       = Inr (Json_of \<lparr>files = [\<lparr>path = ''src/a.ts'', description = ''d'', status = Generated\<rparr>,
                                 \<lparr>path = ''src/a.ts'', description = ''again'', status = Pending\<rparr>]\<rparr>)
   \<and> readFile node_os ''src/a.ts''
        (disk (snd (processCommand node_os (AddCommand ''src/a.ts'' ''again'') gen1)))
       = readFile node_os ''src/a.ts'' (disk gen1)
   \<and> files (manifest (snd (processCommand node_os (RemoveCommand ''src/a.ts'')
        (snd (processCommand node_os (AddCommand ''src/a.ts'' ''again'') gen1)))))
       = [\<lparr>path = ''src/a.ts'', description = ''d'', status = Deleted\<rparr>,
          \<lparr>path = ''src/a.ts'', description = ''again'', status = Pending\<rparr>]"
  using
    add_appends_pending [where c = "AddCommand ''src/a.ts'' ''again''" and p = "''src/a.ts''"
      and d = "''again''" and os = node_os and st = gen1
      and c' = "RemoveCommand ''src/a.ts''"]
    add_appends_pending [where c = "AddCommand ''src/a.ts'' ''again''" and p = "''src/a.ts''"
      and d = "''again''" and os = node_os
      and st = "snd (processCommand node_os (AddCommand ''src/a.ts'' ''again'') gen1)"
      and c' = "RemoveCommand ''src/a.ts''"]
  by (simp add: interp_defs call_defs ex_defs command_defs gen1_def)



section \<open>The batch-replay client: claims\<close>

text \<open>
  C8. Given at least one command file, the batch-replay client never ends with an error:
  \<^verbatim>\<open>main\<close> returns, every input file is visited whatever happened to the files before it
  (each one's reading line is printed), and in a file that was read and parsed every
  update command is attempted, whatever happened to the commands before it. A file that
  cannot be read or parsed only adds a line to the output, and so does an update whose
  directory cannot be made or whose write fails: the error is printed, and the disk is as
  the failed call left it.
\<close>

theorem batch_client_never_fatal:
  assumes "commandFiles \<noteq> []"
  shows "fst (main os parse commandFiles w) = Returned
       \<and> (\<forall>f \<in> set commandFiles.
             Stdout (''Reading command file: '' @ f @ ''...'' @ [CHR 0x0A])
               \<in> set (out (snd (main os parse commandFiles w))))
       \<and> (\<forall>d cs. readFile os g (disk v) = Inr d \<longrightarrow> parse_file parse d = Inr cs \<longrightarrow>
             (\<forall>c \<in> set cs. \<forall>p x why. update c = Some (p, x, why) \<longrightarrow>
                Stdout ([CHR 0x0A] @ ''Processing file: '' @ p @ [CHR 0x0A])
                  \<in> set (out (processCommandFile os parse g v))))
       \<and> (\<forall>e. readFile os g (disk v) = Inl e \<longrightarrow>
             processCommandFile os parse g v =
               emit (Stdout (''Error processing file '' @ g @ '': '' @ error_text e @ [CHR 0x0A]))
                 (emit (Stdout (''Reading command file: '' @ g @ ''...'' @ [CHR 0x0A])) v))
       \<and> (\<forall>d e. readFile os g (disk v) = Inr d \<longrightarrow> parse_file parse d = Inl e \<longrightarrow>
             processCommandFile os parse g v =
               emit (Stdout (''Error parsing JSON from '' @ g @ '': '' @ error_text e @ [CHR 0x0A]))
                 (emit (Stdout (''Reading command file: '' @ g @ ''...'' @ [CHR 0x0A])) v))
       \<and> (\<forall>p x why e. update u = Some (p, x, why) \<longrightarrow>
             fst (ensureDirectoryExists os p v) = None \<longrightarrow>
             fst (writeFile os p (Data x) (snd (mkdir_p os (dirname p) (disk v)))) = Some e \<longrightarrow>
             disk (replay_command os u v)
               = snd (writeFile os p (Data x) (snd (mkdir_p os (dirname p) (disk v))))
           \<and> calls (replay_command os u v) = calls v @ [Mkdir (dirname p), WriteFile p (Data x)]
           \<and> out (replay_command os u v) =
               out v @ [Stdout ([CHR 0x0A] @ ''Processing file: '' @ p @ [CHR 0x0A]),
                        Stdout (''Reason: '' @ why @ [CHR 0x0A]),
                        Stdout (''Error writing file '' @ p @ '': '' @ error_text e @ [CHR 0x0A])])
       \<and> (\<forall>p x why e. update u = Some (p, x, why) \<longrightarrow>
             fst (ensureDirectoryExists os p v) = Some e \<longrightarrow>
             disk (replay_command os u v) = snd (mkdir_p os (dirname p) (disk v))
           \<and> calls (replay_command os u v) = calls v @ [Mkdir (dirname p)]
           \<and> out (replay_command os u v) =
               out v @ [Stdout ([CHR 0x0A] @ ''Processing file: '' @ p @ [CHR 0x0A]),
                        Stdout (''Reason: '' @ why @ [CHR 0x0A]),
                        Stdout (''Error writing file '' @ p @ '': '' @ error_text e @ [CHR 0x0A])])"
proof -
  have ens: "\<And>p e1 e2. fst (ensureDirectoryExists os p (emit e2 (emit e1 v)))
                 = fst (ensureDirectoryExists os p v)"
    by (simp add: ensureDirectoryExists_def Let_def split: option.splits)
  have ens_disk: "\<And>p w. disk (snd (ensureDirectoryExists os p w)) = snd (mkdir_p os (dirname p) (disk w))"
    by (simp add: ensureDirectoryExists_def Let_def split: option.splits)
  have ens_calls: "\<And>p w. calls (snd (ensureDirectoryExists os p w)) = calls w @ [Mkdir (dirname p)]"
    by (simp add: ensureDirectoryExists_def Let_def split: option.splits)
  have a: "fst (main os parse commandFiles w) = Returned"
    using assms by (simp add: main_def del: show_nat.simps)
  have b: "\<forall>f \<in> set commandFiles.
             Stdout (''Reading command file: '' @ f @ ''...'' @ [CHR 0x0A])
               \<in> set (out (snd (main os parse commandFiles w)))"
  proof
    fix f assume m: "f \<in> set commandFiles"
    have "snd (main os parse commandFiles w)
          = files_loop os parse commandFiles
              (emit (Stdout (''Processing '' @ show_nat (length commandFiles) @ '' command file(s)...''
                       @ [CHR 0x0A, CHR 0x0A])) w)"
      using assms by (simp add: main_def del: show_nat.simps)
    then show "Stdout (''Reading command file: '' @ f @ ''...'' @ [CHR 0x0A])
               \<in> set (out (snd (main os parse commandFiles w)))"
      by (simp only: files_loop_visits[OF m])
  qed
  have c: "\<forall>d cs. readFile os g (disk v) = Inr d \<longrightarrow> parse_file parse d = Inr cs \<longrightarrow>
             (\<forall>c \<in> set cs. \<forall>p x why. update c = Some (p, x, why) \<longrightarrow>
                Stdout ([CHR 0x0A] @ ''Processing file: '' @ p @ [CHR 0x0A])
                  \<in> set (out (processCommandFile os parse g v)))"
  proof (intro allI impI ballI)
    fix d cs c p x why
    assume r: "readFile os g (disk v) = Inr d" and pf: "parse_file parse d = Inr cs"
      and m: "c \<in> set cs" and u: "update c = Some (p, x, why)"
    have "processCommandFile os parse g v
          = replay_loop os cs (emit (Stdout (''Reading command file: '' @ g @ ''...'' @ [CHR 0x0A])) v)"
      using r pf by (simp add: processCommandFile_def Let_def)
    then show "Stdout ([CHR 0x0A] @ ''Processing file: '' @ p @ [CHR 0x0A])
                  \<in> set (out (processCommandFile os parse g v))"
      by (simp only: replay_loop_attempts[OF m u])
  qed
  have d: "\<forall>e. readFile os g (disk v) = Inl e \<longrightarrow>
             processCommandFile os parse g v =
               emit (Stdout (''Error processing file '' @ g @ '': '' @ error_text e @ [CHR 0x0A]))
                 (emit (Stdout (''Reading command file: '' @ g @ ''...'' @ [CHR 0x0A])) v)"
    by (simp add: processCommandFile_def Let_def)
  have e: "\<forall>d e. readFile os g (disk v) = Inr d \<longrightarrow> parse_file parse d = Inl e \<longrightarrow>
             processCommandFile os parse g v =
               emit (Stdout (''Error parsing JSON from '' @ g @ '': '' @ error_text e @ [CHR 0x0A]))
                 (emit (Stdout (''Reading command file: '' @ g @ ''...'' @ [CHR 0x0A])) v)"
    by (simp add: processCommandFile_def Let_def)
  have f: "\<forall>p x why e. update u = Some (p, x, why) \<longrightarrow>
             fst (ensureDirectoryExists os p v) = None \<longrightarrow>
             fst (writeFile os p (Data x) (snd (mkdir_p os (dirname p) (disk v)))) = Some e \<longrightarrow>
             disk (replay_command os u v)
               = snd (writeFile os p (Data x) (snd (mkdir_p os (dirname p) (disk v))))
           \<and> calls (replay_command os u v) = calls v @ [Mkdir (dirname p), WriteFile p (Data x)]
           \<and> out (replay_command os u v) =
               out v @ [Stdout ([CHR 0x0A] @ ''Processing file: '' @ p @ [CHR 0x0A]),
                        Stdout (''Reason: '' @ why @ [CHR 0x0A]),
                        Stdout (''Error writing file '' @ p @ '': '' @ error_text e @ [CHR 0x0A])]"
    by (simp add: replay_command_def replay_update_def Let_def ens ens_disk ens_calls)
  have g: "\<forall>p x why e. update u = Some (p, x, why) \<longrightarrow>
             fst (ensureDirectoryExists os p v) = Some e \<longrightarrow>
             disk (replay_command os u v) = snd (mkdir_p os (dirname p) (disk v))
           \<and> calls (replay_command os u v) = calls v @ [Mkdir (dirname p)]
           \<and> out (replay_command os u v) =
               out v @ [Stdout ([CHR 0x0A] @ ''Processing file: '' @ p @ [CHR 0x0A]),
                        Stdout (''Reason: '' @ why @ [CHR 0x0A]),
                        Stdout (''Error writing file '' @ p @ '': '' @ error_text e @ [CHR 0x0A])]"
    by (simp add: replay_command_def replay_update_def Let_def ens ens_disk ens_calls)
  show ?thesis by (intro conjI) (rule a, rule b, rule c, rule d, rule e, rule f, rule g)
qed

text \<open>
  The client run on a missing file, a malformed file and a file whose first update fails
  to write: it returns, reads the last file, reports the failed write and writes the
  update that follows it.
\<close>

theorem batch_client_never_fatal_witness:
  "[''missing.json'', ''bad.json'', ''good.json''] \<noteq> []
   \<and> fst (main node_os parse0 [''missing.json'', ''bad.json'', ''good.json''] world0) = Returned
   \<and> Stdout (''Reading command file: good.json...'' @ [CHR 0x0A])
       \<in> set (out (snd (main node_os parse0 [''missing.json'', ''bad.json'', ''good.json''] world0)))
   \<and> readFile node_os ''good.json'' (disk world0) = Inr (Text ''good'')
   \<and> parse_file parse0 (Text ''good'')
       = Inr [UpdateCommand ''.'' (JString ''oops'') ''a directory'',
              FinishCommand ''done'',
              UpdateCommand ''out/x.txt'' (JString ''hello'') ''test'']
   \<and> Stdout ([CHR 0x0A] @ ''Processing file: out/x.txt'' @ [CHR 0x0A])
       \<in> set (out (processCommandFile node_os parse0 ''good.json'' world0))
   \<and> Stdout (''Error writing file .: '' @ error_text (sys_error ''EISDIR'' ''open'' ''.'') @ [CHR 0x0A])
       \<in> set (out (processCommandFile node_os parse0 ''good.json'' world0))
   \<and> readFile node_os ''missing.json'' (disk world0) = Inl (sys_error ''ENOENT'' ''open'' ''missing.json'')
   \<and> out (processCommandFile node_os parse0 ''missing.json'' world0)
       = [Stdout (''Reading command file: missing.json...'' @ [CHR 0x0A]),
          Stdout (''Error processing file missing.json: ''
                    @ error_text (sys_error ''ENOENT'' ''open'' ''missing.json'') @ [CHR 0x0A])]
   \<and> readFile node_os ''bad.json'' (disk world0) = Inr (Text ''{'')
   \<and> parse_file parse0 (Text ''{'') = Inl (Error [] ''SyntaxError: Unexpected end of JSON input'')
   \<and> out (processCommandFile node_os parse0 ''bad.json'' world0)
       = [Stdout (''Reading command file: bad.json...'' @ [CHR 0x0A]),
          Stdout (''Error parsing JSON from bad.json: SyntaxError: Unexpected end of JSON input''
                    @ [CHR 0x0A])]
   \<and> update (UpdateCommand ''.'' (JString ''oops'') ''a directory'')
       = Some (''.'', JString ''oops'', ''a directory'')
   \<and> fst (ensureDirectoryExists node_os ''.'' world0) = None
   \<and> fst (writeFile node_os ''.'' (Data (JString ''oops''))
            (snd (mkdir_p node_os (dirname ''.'') (disk world0))))
       = Some (sys_error ''EISDIR'' ''open'' ''.'')
   \<and> disk (replay_command node_os (UpdateCommand ''.'' (JString ''oops'') ''a directory'') world0)
       = disk world0
   \<and> readFile node_os ''out/x.txt''
        (disk (snd (main node_os parse0 [''missing.json'', ''bad.json'', ''good.json''] world0)))
       = Inr (Text ''hello'')"
  using
    batch_client_never_fatal [where commandFiles = "[''missing.json'', ''bad.json'', ''good.json'']"
      and os = node_os and parse = parse0 and w = world0 and g = "''good.json''" and v = world0
      and u = "UpdateCommand ''.'' (JString ''oops'') ''a directory''"]
    batch_client_never_fatal [where commandFiles = "[''missing.json'', ''bad.json'', ''good.json'']"
      and os = node_os and parse = parse0 and w = world0 and g = "''bad.json''" and v = world0
      and u = "UpdateCommand ''.'' (JString ''oops'') ''a directory''"]
    batch_client_never_fatal [where commandFiles = "[''missing.json'', ''bad.json'', ''good.json'']"
      and os = node_os and parse = parse0 and w = world0 and g = "''missing.json''" and v = world0
      and u = "UpdateCommand ''.'' (JString ''oops'') ''a directory''"]
  by (simp add: command_defs replay_defs call_defs ex_defs world0_def parse0_def emit_def)

text \<open>
  C9. In the batch-replay client a Finish command does not halt the loop: for a command
  that the probes take for a Finish (no update key, no continue key, a finish key), the
  commands after it are applied to the world the Finish left, which differs from the one
  before only by the three printed texts.
\<close>

theorem replay_finish_does_not_halt:
  assumes "update c = None" and "continue c = None" and "finish c = Some r"
  shows "replay_loop os (pre @ c # post) w
           = replay_loop os post (replay_finish r (replay_loop os pre w))"
  using assms by (simp add: replay_loop_append replay_command_def)

text \<open>An update after a Finish is written.\<close>

theorem replay_finish_does_not_halt_witness:
  "update (FinishCommand ''done'') = None \<and> continue (FinishCommand ''done'') = None
   \<and> finish (FinishCommand ''done'') = Some ''done''
   \<and> replay_loop node_os
        ([] @ FinishCommand ''done'' # [UpdateCommand ''out/x.txt'' (JString ''hello'') ''test'']) world0
       = replay_loop node_os [UpdateCommand ''out/x.txt'' (JString ''hello'') ''test'']
           (replay_finish ''done'' (replay_loop node_os [] world0))
   \<and> readFile node_os ''out/x.txt'' (disk (replay_loop node_os
        [FinishCommand ''done'', UpdateCommand ''out/x.txt'' (JString ''hello'') ''test''] world0))
       = Inr (Text ''hello'')"
  using replay_finish_does_not_halt [of "FinishCommand ''done''" "''done''" node_os "[]"
          "[UpdateCommand ''out/x.txt'' (JString ''hello'') ''test'']" world0]
  by (simp add: command_defs replay_defs call_defs ex_defs world0_def emit_def)

text \<open>
  C10. A command object with none of the keys add, update, remove, finish is skipped by
  the Command Interpreter: the loop body leaves the state as it is (nothing printed,
  nothing written, the manifest untouched) and the loop goes on with the next command.
  When it has no continue key either, the batch-replay client skips it in the same way.
\<close>

theorem unknown_command_skipped:
  assumes "add c = None" and "update c = None" and "remove c = None" and "finish c = None"
  shows "processCommand os c st = (Inr False, st)
       \<and> commands_loop os (c # cs) st = commands_loop os cs st
       \<and> (continue c = None \<longrightarrow>
            replay_command os c w = w \<and> replay_loop os (c # ds) w = replay_loop os ds w)"
  using assms by (simp add: processCommand_def replay_command_def)

theorem unknown_command_skipped_witness:
  "add no_keys = None \<and> update no_keys = None \<and> remove no_keys = None \<and> finish no_keys = None
   \<and> continue no_keys = None
   \<and> processCommand node_os no_keys gen0 = (Inr False, gen0)
   \<and> commands_loop node_os [no_keys, FinishCommand ''r''] gen0
       = commands_loop node_os [FinishCommand ''r''] gen0
   \<and> replay_loop node_os [no_keys, FinishCommand ''r''] world0
       = replay_loop node_os [FinishCommand ''r''] world0"
  using unknown_command_skipped [of no_keys node_os gen0 "[FinishCommand ''r'']" world0 "[FinishCommand ''r'']"]
  by (simp add: no_keys_def)

end
